theory Spec2Isabelle
  imports Main "HOL-Library.AList"
begin

section \<open>The Azure provider of the worker manager\<close>

text \<open>
  A shallow embedding of \<^verbatim>\<open>src/services/worker-manager/src/providers/azure.js\<close>.
  The provider object, the worker row it works on and the record of what it asked of the
  cloud are one explicit state that every operation takes and returns. An exception is
  the \<open>Inl\<close> of a sum. What the cloud answers is a parameter: a record of functions
  from the number of calls made so far and the request to the answer, so that a cloud
  that changes between two calls is an instance.
\<close>

subsection \<open>Errors\<close>

text \<open>
  Thrown values. Only \<^verbatim>\<open>err.statusCode\<close> and \<^verbatim>\<open>err.message\<close> are read by the provider:
  a \<open>CloudError\<close> carries a status code, an \<open>Error\<close> (TypeError, AssertionError,
  a transport failure) has none, an \<open>ApiError\<close> is what \<^verbatim>\<open>registerWorker\<close> throws.
\<close>

datatype err = CloudError int string | Error string | ApiError string

fun statusCode :: "err \<Rightarrow> int option" where
  "statusCode (CloudError c m) = Some c"
| "statusCode (Error m) = None"
| "statusCode (ApiError m) = None"

fun message :: "err \<Rightarrow> string" where
  "message (CloudError c m) = m"
| "message (Error m) = m"
| "message (ApiError m) = m"

subsection \<open>The error handler of the cloud gateway (\<^verbatim>\<open>setup\<close>)\<close>

datatype level = Notice | Warning

text \<open>
  The numbers of JavaScript are IEEE doubles. A double that is an integer is \<open>Exact\<close>
  of it. \<^verbatim>\<open>Math.pow(2, tries)\<close> is the integer \<open>2 ^ tries\<close> up to the largest exponent of
  a double, 1023, and \<^verbatim>\<open>Infinity\<close> after it. The product of two doubles that are integers
  is the product of the integers when that is at most \<open>2 ^ 53\<close> in absolute value: it
  is a double then, and the multiplication rounds to the nearest double. Every other
  result (a rounded product, an infinity, \<^verbatim>\<open>NaN\<close>) is \<open>Inexact\<close>: the model does not say
  which double it is.
\<close>

datatype number = Exact int | Inexact

definition pow2 :: "nat \<Rightarrow> number" where
  "pow2 n = (if n \<le> 1023 then Exact (2 ^ n) else Inexact)"

fun times :: "number \<Rightarrow> number \<Rightarrow> number" where
  "times (Exact x) (Exact y) = (if \<bar>x * y\<bar> \<le> 2 ^ 53 then Exact (x * y) else Inexact)"
| "times x y = Inexact"

record backoff_decision =
  backoff :: number
  reason :: string
  level :: level

text \<open>
  \<^verbatim>\<open>errorHandler: ({err, tries}) => ...\<close> with \<^verbatim>\<open>_backoffDelay\<close>, a whole number of
  milliseconds, as first argument. Returning a decision makes the gateway retry after
  the backoff; throwing propagates.
\<close>

definition errorHandler :: "int \<Rightarrow> err \<Rightarrow> nat \<Rightarrow> err + backoff_decision" where
  "errorHandler backoffDelay e tries =
     (if statusCode e = Some 429 then
        Inr \<lparr>backoff = times (Exact backoffDelay) (Exact 50), reason = ''rateLimit'',
             level = Notice\<rparr>
      else if (case statusCode e of None \<Rightarrow> False | Some c \<Rightarrow> c \<ge> 500) then
        Inr \<lparr>backoff = times (Exact backoffDelay) (pow2 tries), reason = ''errors'',
             level = Warning\<rparr>
      else Inl e)"

subsection \<open>The worker row\<close>

datatype worker_state = REQUESTED | RUNNING | STOPPING | STOPPED

text \<open>
  \<^verbatim>\<open>providerData[type].id\<close> holds \<^verbatim>\<open>false\<close> or \<^verbatim>\<open>undefined\<close> (\<open>NoId\<close>; the code
  only tests them for truth), the sentinel \<^verbatim>\<open>true\<close> of a disk read back from a VM, or
  the id string of the cloud. \<^verbatim>\<open>operation\<close> and \<^verbatim>\<open>vmId\<close> hold \<^verbatim>\<open>false\<close>,
  \<^verbatim>\<open>undefined\<close> (\<open>None\<close>) or a string. The empty string is falsy, as in JavaScript.
\<close>

datatype rid = NoId | IdTrue | Id string

fun truthy_id :: "rid \<Rightarrow> bool" where
  "truthy_id NoId = False"
| "truthy_id IdTrue = True"
| "truthy_id (Id s) = (s \<noteq> [])"

fun truthy :: "string option \<Rightarrow> bool" where
  "truthy None = False"
| "truthy (Some s) = (s \<noteq> [])"

fun rid_of :: "string option \<Rightarrow> rid" where
  "rid_of None = NoId"
| "rid_of (Some s) = Id s"

type_synonym tags = "(string \<times> string) list"

record resource =
  r_name :: string
  r_operation :: "string option"
  r_id :: rid

record custom_data =
  cd_workerPoolId :: string
  cd_providerId :: string
  cd_workerGroup :: string
  cd_rootUrl :: string
  cd_workerConfig :: "(string \<times> string) list"

record os_profile =
  computerName :: string
  customData :: custom_data
  adminUsername :: "string option"
  adminPassword :: "string option"

record nic_ref =
  nic_ref_id :: rid
  primary :: bool

text \<open>
  The VM configuration kept in \<^verbatim>\<open>providerData.vm.config\<close>: the launch configuration
  without \<^verbatim>\<open>capacityPerInstance\<close> and \<^verbatim>\<open>workerConfig\<close> (so with the user's own
  \<^verbatim>\<open>tags\<close>), with the profiles \<^verbatim>\<open>provision\<close> fills in.
\<close>

record vm_config =
  cfg_location :: string
  cfg_tags :: "tags option"
  osProfile :: "os_profile option"
  networkInterfaces :: "nic_ref list"

record vm_resource = resource +
  vmId :: "string option"
  config :: vm_config

record providerData =
  location :: string
  resourceGroupName :: string
  workerConfig :: "(string \<times> string) list option"
  tags :: tags
  vm :: vm_resource
  ip :: resource
  nic :: resource
  disks :: "resource list option"
  disk :: "resource option"
  subnet_id :: string
  terminateAfter :: "int option"
  reregistrationTimeout :: "int option"

record worker =
  workerPoolId :: string
  workerGroup :: string
  workerId :: string
  capacity :: nat
  state :: worker_state
  lastModified :: int
  lastChecked :: int
  expires :: int
  providerData :: providerData

subsection \<open>The cloud, and what the provider asks of it\<close>

datatype client = PublicIPAddresses | NetworkInterfaces | VirtualMachines | Disks

text \<open>What a GET of a resource returns, as far as the provider reads it.\<close>

record cloud_resource =
  cr_id :: "string option"
  provisioningState :: "string option"
  cr_vmId :: "string option"
  osDiskName :: string
  dataDiskNames :: "string list"

datatype resource_config =
    IpConfig string
  | NicConfig string string string rid
  | VmConfig vm_config

text \<open>
  The body of a create request is \<^verbatim>\<open>{...resourceConfig, tags: worker.providerData.tags}\<close>:
  whatever \<^verbatim>\<open>tags\<close> the configuration had is overwritten, so the request has one
  \<open>req_tags\<close>.
\<close>

record request =
  req_config :: resource_config
  req_tags :: tags

record op_body =
  b_status :: string
  b_error :: "(string \<times> string) option"

record op_response =
  status :: int
  parsedBody :: "op_body option"

text \<open>
  The answers of the cloud, after the gateway's retries. The first argument is the number
  of calls the provider has made before this one.
\<close>

record cloud =
  c_get :: "nat \<Rightarrow> client \<Rightarrow> string \<Rightarrow> string \<Rightarrow> err + cloud_resource"
  c_beginCreateOrUpdate :: "nat \<Rightarrow> client \<Rightarrow> string \<Rightarrow> string \<Rightarrow> request \<Rightarrow> err + string option"
  c_beginDeleteMethod :: "nat \<Rightarrow> client \<Rightarrow> string \<Rightarrow> string \<Rightarrow> err + string option"
  c_instanceView :: "nat \<Rightarrow> string \<Rightarrow> string \<Rightarrow> err + string list"
  c_sendLongRunningRequest :: "nat \<Rightarrow> string \<Rightarrow> err + op_response"

text \<open>The calls made, in order; a GET is recorded with its outcome.\<close>

datatype event =
    Get client string string "err + cloud_resource"
  | BeginCreateOrUpdate client string string request
  | BeginDeleteMethod client string string
  | InstanceView string string
  | OpRead string

datatype rtype = IP | NIC | VM

datatype removal_reason =
    ResourceHasState rtype "string option"
  | OperationExpired
  | VMCreationError string
  | TerminateAfterExceeded
  | FailedState "string option" "string list"
  | ContinuingRemoval
  | VmNotFound worker_state
  | OtherReason string

datatype log_entry =
    WorkerRemoved removal_reason
  | RegistrationErrorWarning string
  | WorkerRunning

record pool_error =
  kind :: string
  title :: string
  description :: string

text \<open>
  The provider with the worker it is working on: the row, the rows written to the
  database in order (one for every \<^verbatim>\<open>worker.update\<close>), the calls made to the cloud,
  \<^verbatim>\<open>this.errors[workerPoolId]\<close> and \<^verbatim>\<open>this.seen[workerPoolId]\<close> of the scan (after
  \<^verbatim>\<open>scanPrepare\<close>, with the pool's entries present), the errors reported to the pool
  and the structured log.
\<close>

record pstate =
  worker :: worker
  written :: "worker list"
  calls :: "event list"
  errors :: "pool_error list"
  seen :: nat
  reported :: "pool_error list"
  monitor :: "log_entry list"

text \<open>
  What an operation reads from outside: the clock, whether the pool still exists, and the
  random generators (\<open>nicerId ev k\<close> is the \<open>k\<close>-th id drawn in the operation).
\<close>

record env =
  now :: int
  workerPoolExists :: bool
  nicerId :: "nat \<Rightarrow> string"
  generateAdminPassword :: string

text \<open>
  Modelled from the spec: \<^verbatim>\<open>Worker.update\<close> of \<^verbatim>\<open>../data\<close>, which is not among the
  sources. It is a read-modify-write of the row, after which the worker object in hand
  has the new values (\<^verbatim>\<open>removeWorker\<close> reads \<^verbatim>\<open>worker.providerData.vm.id\<close> right after
  \<^verbatim>\<open>removeResource\<close> cleared it in an update).
\<close>

definition update :: "(worker \<Rightarrow> worker) \<Rightarrow> pstate \<Rightarrow> pstate" where
  "update modifier s =
     s\<lparr>worker := modifier (worker s), written := written s @ [modifier (worker s)]\<rparr>"

definition pd_update :: "(providerData \<Rightarrow> providerData) \<Rightarrow> worker \<Rightarrow> worker" where
  "pd_update f w = w\<lparr>providerData := f (providerData w)\<rparr>"

definition enqueue_get :: "cloud \<Rightarrow> client \<Rightarrow> string \<Rightarrow> string \<Rightarrow> pstate
    \<Rightarrow> (err + cloud_resource) \<times> pstate" where
  "enqueue_get cl c rg n s =
     (let r = c_get cl (length (calls s)) c rg n
      in (r, s\<lparr>calls := calls s @ [Get c rg n r]\<rparr>))"

definition enqueue_beginCreateOrUpdate :: "cloud \<Rightarrow> client \<Rightarrow> string \<Rightarrow> string \<Rightarrow> request
    \<Rightarrow> pstate \<Rightarrow> (err + string option) \<times> pstate" where
  "enqueue_beginCreateOrUpdate cl c rg n req s =
     (c_beginCreateOrUpdate cl (length (calls s)) c rg n req,
      s\<lparr>calls := calls s @ [BeginCreateOrUpdate c rg n req]\<rparr>)"

definition enqueue_beginDeleteMethod :: "cloud \<Rightarrow> client \<Rightarrow> string \<Rightarrow> string
    \<Rightarrow> pstate \<Rightarrow> (err + string option) \<times> pstate" where
  "enqueue_beginDeleteMethod cl c rg n s =
     (c_beginDeleteMethod cl (length (calls s)) c rg n,
      s\<lparr>calls := calls s @ [BeginDeleteMethod c rg n]\<rparr>)"

definition enqueue_instanceView :: "cloud \<Rightarrow> string \<Rightarrow> string
    \<Rightarrow> pstate \<Rightarrow> (err + string list) \<times> pstate" where
  "enqueue_instanceView cl rg n s =
     (c_instanceView cl (length (calls s)) rg n,
      s\<lparr>calls := calls s @ [InstanceView rg n]\<rparr>)"

definition enqueue_opRead :: "cloud \<Rightarrow> string \<Rightarrow> pstate \<Rightarrow> (err + op_response) \<times> pstate" where
  "enqueue_opRead cl op s =
     (c_sendLongRunningRequest cl (length (calls s)) op,
      s\<lparr>calls := calls s @ [OpRead op]\<rparr>)"

subsection \<open>Reading and writing \<^verbatim>\<open>providerData[resourceType]\<close>\<close>

text \<open>
  \<^verbatim>\<open>removeResource\<close> is called with a resource type, or with \<^verbatim>\<open>'disks'\<close> and an index.
\<close>

datatype target = Single rtype | DiskAt nat

definition modify :: "(string option \<Rightarrow> string option) \<Rightarrow> (rid \<Rightarrow> rid)
    \<Rightarrow> 'a resource_scheme \<Rightarrow> 'a resource_scheme" where
  "modify fo fi r = r\<lparr>r_operation := fo (r_operation r), r_id := fi (r_id r)\<rparr>"

fun resourceOf :: "rtype \<Rightarrow> providerData \<Rightarrow> resource" where
  "resourceOf IP pd = ip pd"
| "resourceOf NIC pd = nic pd"
| "resourceOf VM pd = resource.truncate (vm pd)"

fun typeData :: "target \<Rightarrow> providerData \<Rightarrow> err + resource" where
  "typeData (Single t) pd = Inr (resourceOf t pd)"
| "typeData (DiskAt i) pd =
     (case disks pd of
        None \<Rightarrow> Inl (Error ''Error removing worker: providerData does not contain resourceType disks'')
      | Some ds \<Rightarrow>
          if i < length ds then Inr (ds ! i)
          else Inl (Error ''TypeError: Cannot read property id of undefined''))"

fun modify_resource :: "target \<Rightarrow> (string option \<Rightarrow> string option) \<Rightarrow> (rid \<Rightarrow> rid)
    \<Rightarrow> providerData \<Rightarrow> providerData" where
  "modify_resource (Single IP) fo fi pd = pd\<lparr>ip := modify fo fi (ip pd)\<rparr>"
| "modify_resource (Single NIC) fo fi pd = pd\<lparr>nic := modify fo fi (nic pd)\<rparr>"
| "modify_resource (Single VM) fo fi pd = pd\<lparr>vm := modify fo fi (vm pd)\<rparr>"
| "modify_resource (DiskAt i) fo fi pd =
     pd\<lparr>disks := map_option (\<lambda>ds. if i < length ds then ds[i := modify fo fi (ds ! i)] else ds)
                    (disks pd)\<rparr>"

subsection \<open>\<^verbatim>\<open>removeResource\<close>\<close>

definition not_to_delete :: "string option \<Rightarrow> bool" where
  "not_to_delete ps = (ps \<in> {Some ''Deleting'', Some ''Deallocating'', Some ''Deallocated''})"

text \<open>
  The second half of \<^verbatim>\<open>removeResource\<close>: \<^verbatim>\<open>beginDeleteMethod\<close>, then the update that
  sets \<^verbatim>\<open>id = false\<close> and stores the operation when the poll state has one.
\<close>

definition deleteResource :: "cloud \<Rightarrow> client \<Rightarrow> target \<Rightarrow> resource \<Rightarrow> pstate
    \<Rightarrow> (err + bool) \<times> pstate" where
  "deleteResource cl c tgt td s =
     (case enqueue_beginDeleteMethod cl c (resourceGroupName (providerData (worker s))) (r_name td) s of
        (Inl e, s1) \<Rightarrow> (Inl e, s1)
      | (Inr pollState, s1) \<Rightarrow>
          (Inr False,
           update (pd_update (modify_resource tgt
             (\<lambda>old. case pollState of None \<Rightarrow> old | Some v \<Rightarrow> Some v) (\<lambda>_. NoId))) s1))"

definition removeResource :: "cloud \<Rightarrow> client \<Rightarrow> target \<Rightarrow> pstate \<Rightarrow> (err + bool) \<times> pstate" where
  "removeResource cl c tgt s =
     (case typeData tgt (providerData (worker s)) of
        Inl e \<Rightarrow> (Inl e, s)
      | Inr td \<Rightarrow>
          if \<not> truthy_id (r_id td) then
            (case enqueue_get cl c (resourceGroupName (providerData (worker s))) (r_name td) s of
               (Inr res, s1) \<Rightarrow>
                 if \<not> not_to_delete (provisioningState res) then deleteResource cl c tgt td s1
                 else (Inr False, s1)
             | (Inl e, s1) \<Rightarrow>
                 if statusCode e = Some 404 then
                   (Inr True,
                    update (pd_update (modify_resource tgt (\<lambda>_. None) (\<lambda>_. NoId))) s1)
                 else (Inl e, s1))
          else deleteResource cl c tgt td s)"

subsection \<open>\<^verbatim>\<open>removeWorker\<close>\<close>

text \<open>The loop over \<^verbatim>\<open>worker.providerData.disks\<close>, by index.\<close>

fun removeDisks :: "cloud \<Rightarrow> nat list \<Rightarrow> bool \<Rightarrow> pstate \<Rightarrow> (err + bool) \<times> pstate" where
  "removeDisks cl [] disksDeleted s = (Inr disksDeleted, s)"
| "removeDisks cl (i # is) disksDeleted s =
     (case removeResource cl Disks (DiskAt i) s of
        (Inl e, s1) \<Rightarrow> (Inl e, s1)
      | (Inr success, s1) \<Rightarrow> removeDisks cl is (disksDeleted \<and> success) s1)"

text \<open>
  The body of the \<^verbatim>\<open>try\<close> of \<^verbatim>\<open>removeWorker\<close>; it returns the state \<^verbatim>\<open>removeWorker\<close>
  returns, or what was thrown.
\<close>

definition removeWorker_try :: "env \<Rightarrow> cloud \<Rightarrow> pstate \<Rightarrow> (err + worker_state) \<times> pstate" where
  "removeWorker_try ev cl s =
     (case removeResource cl VirtualMachines (Single VM) s of
        (Inl e, s1) \<Rightarrow> (Inl e, s1)
      | (Inr vmDeleted, s1) \<Rightarrow>
     if \<not> vmDeleted \<or> truthy_id (r_id (vm (providerData (worker s1)))) then (Inr STOPPING, s1)
     else
     (case removeResource cl NetworkInterfaces (Single NIC) s1 of
        (Inl e, s2) \<Rightarrow> (Inl e, s2)
      | (Inr nicDeleted, s2) \<Rightarrow>
     if \<not> nicDeleted \<or> truthy_id (r_id (nic (providerData (worker s2)))) then (Inr STOPPING, s2)
     else
     (case removeResource cl PublicIPAddresses (Single IP) s2 of
        (Inl e, s3) \<Rightarrow> (Inl e, s3)
      | (Inr ipDeleted, s3) \<Rightarrow>
     if \<not> ipDeleted \<or> truthy_id (r_id (ip (providerData (worker s3)))) then (Inr STOPPING, s3)
     else
     (case disks (providerData (worker s3)) of
        None \<Rightarrow> (Inl (Error ''TypeError: Cannot read property length of undefined''), s3)
      | Some ds \<Rightarrow>
     (case removeDisks cl [0 ..< length ds] True s3 of
        (Inl e, s4) \<Rightarrow> (Inl e, s4)
      | (Inr disksDeleted, s4) \<Rightarrow>
     if \<not> disksDeleted
        \<or> list_ex (\<lambda>d. truthy_id (r_id d))
             (case disks (providerData (worker s4)) of None \<Rightarrow> [] | Some ds' \<Rightarrow> ds')
     then (Inr STOPPING, s4)
     else
       (Inr STOPPED,
        update (\<lambda>w. w\<lparr>lastModified := now ev, lastChecked := now ev, state := STOPPED\<rparr>) s4))))))"

definition removeWorker :: "env \<Rightarrow> cloud \<Rightarrow> removal_reason \<Rightarrow> pstate \<Rightarrow> worker_state \<times> pstate" where
  "removeWorker ev cl why s0 =
     (let s = s0\<lparr>monitor := monitor s0 @ [WorkerRemoved why]\<rparr> in
      if state (worker s) = STOPPED then (STOPPED, s)
      else
        (case removeWorker_try ev cl s of
           (Inr st, s1) \<Rightarrow> (st, s1)
         | (Inl e, s1) \<Rightarrow>
             (STOPPING,
              s1\<lparr>errors := errors s1 @
                 [\<lparr>kind = ''deletion-error'', title = ''Deletion Error'', description = message e\<rparr>]\<rparr>)))"

subsection \<open>\<^verbatim>\<open>handleOperation\<close>\<close>

text \<open>True when the operation is still in progress (or could not be read).\<close>

definition handleOperation :: "cloud \<Rightarrow> string \<Rightarrow> pstate \<Rightarrow> bool \<times> pstate" where
  "handleOperation cl op s =
     (case enqueue_opRead cl op s of
        (Inl e, s1) \<Rightarrow> (True, s1)
      | (Inr resp, s1) \<Rightarrow>
          if status resp = 404 then (False, s1)
          else
            (case parsedBody resp of
               None \<Rightarrow> (False, s1)
             | Some body \<Rightarrow>
                 if b_status body = ''InProgress'' then (True, s1)
                 else
                   (case b_error body of
                      None \<Rightarrow> (False, s1)
                    | Some (msg, code) \<Rightarrow>
                        (False,
                         s1\<lparr>errors := errors s1 @
                           [\<lparr>kind = ''operation-error'', title = ''Operation Error'',
                             description = msg\<rparr>]\<rparr>))))"

subsection \<open>\<^verbatim>\<open>provisionResource\<close>\<close>

definition failProvisioningStates :: "string option \<Rightarrow> bool" where
  "failProvisioningStates ps =
     (ps \<in> {Some ''Failed'', Some ''Deleting'', Some ''Canceled'', Some ''Deallocating''})"

definition successProvisioningStates :: "string option \<Rightarrow> bool" where
  "successProvisioningStates ps = (ps \<in> {Some ''Succeeded'', Some ''Creating'', Some ''Updating''})"

definition successPowerStates :: "string \<Rightarrow> bool" where
  "successPowerStates v = (v \<in> {''PowerState/running'', ''PowerState/starting''})"

definition failPowerStates :: "string \<Rightarrow> bool" where
  "failPowerStates v =
     (v \<in> {''PowerState/stopping'', ''PowerState/stopped'',
           ''PowerState/deallocating'', ''PowerState/deallocated''})"

text \<open>
  The last part of \<^verbatim>\<open>provisionResource\<close>: \<^verbatim>\<open>beginCreateOrUpdate\<close> with the worker's
  tags, then the update that keeps the operation to poll.
\<close>

definition createResource :: "cloud \<Rightarrow> client \<Rightarrow> rtype \<Rightarrow> resource_config \<Rightarrow> resource \<Rightarrow> pstate
    \<Rightarrow> (err + unit) \<times> pstate" where
  "createResource cl c t resourceConfig td s =
     (case enqueue_beginCreateOrUpdate cl c (resourceGroupName (providerData (worker s))) (r_name td)
             \<lparr>req_config = resourceConfig, req_tags = tags (providerData (worker s))\<rparr> s of
        (Inl e, s1) \<Rightarrow> (Inl e, s1)
      | (Inr pollState, s1) \<Rightarrow>
          (Inr (), update (pd_update (modify_resource (Single t) (\<lambda>_. pollState) (\<lambda>i. i))) s1))"

definition provisionResource :: "env \<Rightarrow> cloud \<Rightarrow> client \<Rightarrow> rtype \<Rightarrow> resource_config
    \<Rightarrow> (cloud_resource \<Rightarrow> worker \<Rightarrow> worker) \<Rightarrow> pstate \<Rightarrow> (err + unit) \<times> pstate" where
  "provisionResource ev cl c t resourceConfig modifyFn s =
     (let td = resourceOf t (providerData (worker s)) in
      if \<not> truthy_id (r_id td) then
        (case enqueue_get cl c (resourceGroupName (providerData (worker s))) (r_name td) s of
           (Inr res, s1) \<Rightarrow>
             if failProvisioningStates (provisioningState res) then
               (Inr (),
                snd (removeWorker ev cl (ResourceHasState t (provisioningState res))
                      (update (pd_update (modify_resource (Single t) (\<lambda>_. None) (\<lambda>i. i))) s1)))
             else
               (Inr (),
                update (\<lambda>w. modifyFn res
                         (pd_update (modify_resource (Single t) (\<lambda>_. None) (\<lambda>_. rid_of (cr_id res))) w))
                  s1)
         | (Inl e, s1) \<Rightarrow>
             if statusCode e \<noteq> Some 404 then (Inl e, s1)
             else if truthy (r_operation td) then
               (case handleOperation cl (the (r_operation td)) s1 of
                  (True, s2) \<Rightarrow> (Inr (), s2)
                | (False, s2) \<Rightarrow>
                    (Inr (),
                     snd (removeWorker ev cl OperationExpired
                           (update (pd_update (modify_resource (Single t) (\<lambda>_. None) (\<lambda>i. i))) s2))))
             else createResource cl c t resourceConfig td s1)
      else (Inr (), s))"

subsection \<open>\<^verbatim>\<open>provisionResources\<close>\<close>

text \<open>
  \<^verbatim>\<open>workerConfigWithSecrets\<close>: the assertion, then the generated user name (at most 20
  characters of an id) and password.
\<close>

definition workerConfigWithSecrets :: "env \<Rightarrow> vm_config \<Rightarrow> err + vm_config" where
  "workerConfigWithSecrets ev cfg =
     (case osProfile cfg of
        None \<Rightarrow> Inl (Error ''AssertionError'')
      | Some p \<Rightarrow>
          Inr (cfg\<lparr>osProfile := Some (p\<lparr>adminUsername := Some (take 20 (nicerId ev 0)),
                                        adminPassword := Some (generateAdminPassword ev)\<rparr>)\<rparr>))"

definition nicModifyFunc :: "cloud_resource \<Rightarrow> worker \<Rightarrow> worker" where
  "nicModifyFunc nicRes w =
     pd_update (\<lambda>pd. pd\<lparr>vm := (vm pd)\<lparr>config := (config (vm pd))
        \<lparr>networkInterfaces := [\<lparr>nic_ref_id = rid_of (cr_id nicRes), primary = True\<rparr>]\<rparr>\<rparr>\<rparr>) w"

definition vmModifyFunc :: "cloud_resource \<Rightarrow> worker \<Rightarrow> worker" where
  "vmModifyFunc vmRes w =
     pd_update (\<lambda>pd. pd\<lparr>disks := Some
        (map (\<lambda>n. \<lparr>r_name = n, r_operation = None, r_id = IdTrue\<rparr>)
             (osDiskName vmRes # dataDiskNames vmRes))\<rparr>) w"

text \<open>The body of the \<^verbatim>\<open>try\<close> of \<^verbatim>\<open>provisionResources\<close>.\<close>

definition provisionResources_try :: "env \<Rightarrow> cloud \<Rightarrow> pstate \<Rightarrow> (err + worker_state) \<times> pstate" where
  "provisionResources_try ev cl s =
     (case provisionResource ev cl PublicIPAddresses IP
             (IpConfig (location (providerData (worker s)))) (\<lambda>res w. w) s of
        (Inl e, s1) \<Rightarrow> (Inl e, s1)
      | (Inr u, s1) \<Rightarrow>
     if \<not> truthy_id (r_id (ip (providerData (worker s1)))) then (Inr (state (worker s1)), s1)
     else
     (case provisionResource ev cl NetworkInterfaces NIC
             (NicConfig (location (providerData (worker s1))) (r_name (nic (providerData (worker s1))))
                (subnet_id (providerData (worker s1))) (r_id (ip (providerData (worker s1)))))
             nicModifyFunc s1 of
        (Inl e, s2) \<Rightarrow> (Inl e, s2)
      | (Inr u, s2) \<Rightarrow>
     if \<not> truthy_id (r_id (nic (providerData (worker s2)))) then (Inr (state (worker s2)), s2)
     else
     (case workerConfigWithSecrets ev (config (vm (providerData (worker s2)))) of
        Inl e \<Rightarrow> (Inl e, s2)
      | Inr vmConfig \<Rightarrow>
     (case provisionResource ev cl VirtualMachines VM (VmConfig vmConfig) vmModifyFunc s2 of
        (Inl e, s3) \<Rightarrow> (Inl e, s3)
      | (Inr u, s3) \<Rightarrow>
     if \<not> truthy_id (r_id (vm (providerData (worker s3)))) then (Inr (state (worker s3)), s3)
     else (Inr RUNNING, s3)))))"

definition reportError :: "env \<Rightarrow> pool_error \<Rightarrow> pstate \<Rightarrow> pstate" where
  "reportError ev e s = (if workerPoolExists ev then s\<lparr>reported := reported s @ [e]\<rparr> else s)"

definition provisionResources :: "env \<Rightarrow> cloud \<Rightarrow> pstate \<Rightarrow> worker_state \<times> pstate" where
  "provisionResources ev cl s =
     (case provisionResources_try ev cl s of
        (Inr st, s1) \<Rightarrow> (st, s1)
      | (Inl e, s1) \<Rightarrow>
          removeWorker ev cl (VMCreationError (message e))
            (reportError ev \<lparr>kind = ''creation-error'', title = ''VM Creation Error'',
                             description = message e\<rparr> s1))"

subsection \<open>\<^verbatim>\<open>fetchVmInfo\<close> and \<^verbatim>\<open>checkWorker\<close>\<close>

definition fetchVmInfo :: "cloud \<Rightarrow> pstate \<Rightarrow> (err + string option \<times> string option) \<times> pstate" where
  "fetchVmInfo cl s =
     (case enqueue_get cl VirtualMachines (resourceGroupName (providerData (worker s)))
             (r_name (vm (providerData (worker s)))) s of
        (Inl e, s1) \<Rightarrow> (Inl e, s1)
      | (Inr res, s1) \<Rightarrow>
          (Inr (provisioningState res, cr_vmId res),
           if \<not> truthy (vmId (vm (providerData (worker s1)))) then
             update (pd_update (\<lambda>pd. pd\<lparr>vm := (vm pd)\<lparr>vmId := cr_vmId res\<rparr>\<rparr>)) s1
           else s1))"

definition day :: int where "day = 24 * 60 * 60 * 1000"

text \<open>
  The body of the \<^verbatim>\<open>try\<close> of \<^verbatim>\<open>checkWorker\<close>, from the state read before it; it
  returns the new value of the local \<^verbatim>\<open>state\<close>, or what was thrown.
\<close>

definition checkWorker_try :: "env \<Rightarrow> cloud \<Rightarrow> worker_state \<Rightarrow> pstate
    \<Rightarrow> (err + worker_state) \<times> pstate" where
  "checkWorker_try ev cl st s =
     (case fetchVmInfo cl s of
        (Inl e, s1) \<Rightarrow> (Inl e, s1)
      | (Inr (provState, fetchedVmId), s1) \<Rightarrow>
     (case enqueue_instanceView cl (resourceGroupName (providerData (worker s1)))
             (r_name (vm (providerData (worker s1)))) s1 of
        (Inl e, s2) \<Rightarrow> (Inl e, s2)
      | (Inr powerStates, s2) \<Rightarrow>
     if successProvisioningStates provState \<and> list_ex successPowerStates powerStates then
       (let s3 = s2\<lparr>seen := seen s2 + (if capacity (worker s2) = 0 then 1 else capacity (worker s2))\<rparr>;
            s4 = (if expires (worker s3) < now ev + day
                  then update (\<lambda>w. w\<lparr>expires := now ev + 7 * day\<rparr>) s3 else s3)
        in case terminateAfter (providerData (worker s4)) of
             None \<Rightarrow> (Inr st, s4)
           | Some t \<Rightarrow>
               if t \<noteq> 0 \<and> t < now ev then
                 (case removeWorker ev cl TerminateAfterExceeded s4 of (st', s5) \<Rightarrow> (Inr st', s5))
               else (Inr st, s4))
     else if failProvisioningStates provState \<or> list_ex failPowerStates powerStates then
       (case removeWorker ev cl (FailedState provState powerStates) s2 of (st', s3) \<Rightarrow> (Inr st', s3))
     else
       (Inr st,
        reportError ev \<lparr>kind = ''creation-error'',
                        title = ''Encountered unknown VM provisioningState or powerStates'',
                        description = ''Unknown provisioningState or powerStates''\<rparr> s2)))"

text \<open>
  The first statement of \<^verbatim>\<open>checkWorker\<close>: the update from the deprecated \<^verbatim>\<open>disk\<close> to
  \<^verbatim>\<open>disks\<close>, when the row has a \<^verbatim>\<open>disk\<close>.
\<close>

definition migrateDisk :: "pstate \<Rightarrow> pstate" where
  "migrateDisk s =
     (case disk (providerData (worker s)) of
        None \<Rightarrow> s
      | Some d \<Rightarrow> update (pd_update (\<lambda>pd. pd\<lparr>disks := Some [d]\<rparr>)) s)"

text \<open>The last statement of \<^verbatim>\<open>checkWorker\<close>: the update that writes the local \<^verbatim>\<open>state\<close>.\<close>

definition setState :: "env \<Rightarrow> worker_state \<times> pstate \<Rightarrow> pstate" where
  "setState ev r =
     update (\<lambda>w. w\<lparr>lastModified := (if state w \<noteq> fst r then now ev else lastModified w),
                    lastChecked := now ev,
                    state := fst r\<rparr>) (snd r)"

definition checkWorker :: "env \<Rightarrow> cloud \<Rightarrow> pstate \<Rightarrow> (err + unit) \<times> pstate" where
  "checkWorker ev cl s0 =
     (let s = migrateDisk s0;
          st = state (worker s)
      in case checkWorker_try ev cl st s of
           (Inr st', s1) \<Rightarrow> (Inr (), setState ev (st', s1))
         | (Inl e, s1) \<Rightarrow>
             if statusCode e \<noteq> Some 404 then (Inl e, s1)
             else if st = REQUESTED then (Inr (), setState ev (provisionResources ev cl s1))
             else if st = STOPPING then
               (Inr (), setState ev (removeWorker ev cl ContinuingRemoval s1))
             else (Inr (), setState ev (removeWorker ev cl (VmNotFound st) s1)))"

subsection \<open>\<^verbatim>\<open>registerWorker\<close>\<close>

record pkcs7_message =
  rawContent :: "string option"
  certificates :: "string list"
  rawSignature :: "string option"

text \<open>
  What \<^verbatim>\<open>JSON.parse\<close> returns, as far as \<^verbatim>\<open>registerWorker\<close> reads it: \<^verbatim>\<open>null\<close>, on which
  reading a property throws a TypeError, or a value with the properties \<^verbatim>\<open>vmId\<close> and
  \<^verbatim>\<open>timeStamp\<close> (a number, a string or an array has neither, like an object without
  them). A \<^verbatim>\<open>timeStamp\<close> that is \<^verbatim>\<open>undefined\<close> or \<^verbatim>\<open>null\<close> is \<open>None\<close>: reading its
  \<^verbatim>\<open>expiresOn\<close> throws a TypeError. An \<^verbatim>\<open>expiresOn\<close> of which \<^verbatim>\<open>new Date\<close> makes no
  valid date is \<open>None\<close>, and otherwise the time of that date.
\<close>

record time_stamp =
  expiresOn :: "int option"

record payload_object =
  p_vmId :: "string option"
  timeStamp :: "time_stamp option"

datatype payload = Null | Object payload_object

text \<open>
  What the cryptographic libraries answer (node-forge, crypto, JSON): a parameter.
  \<open>None\<close> and \<open>False\<close> stand for a thrown error or a failed assertion.
\<close>

record crypto =
  messageFromAsn1 :: "string \<Rightarrow> pkcs7_message option"
  publicKeyToPem :: "string \<Rightarrow> string option"
  verify :: "string \<Rightarrow> string \<Rightarrow> string \<Rightarrow> bool"
  verifyCertificateChain :: "string \<Rightarrow> bool"
  json_parse :: "string \<Rightarrow> payload option"

definition registration_error :: "string \<Rightarrow> pstate \<Rightarrow> (err + 'a) \<times> pstate" where
  "registration_error msg s =
     (Inl (ApiError ''Signature validation error''),
      s\<lparr>monitor := monitor s @ [RegistrationErrorWarning msg]\<rparr>)"

text \<open>
  Steps 1 to 5 of \<^verbatim>\<open>registerWorker\<close>: from the document to the payload, or the message
  logged with the error.
\<close>

definition decode_document :: "crypto \<Rightarrow> string \<Rightarrow> string + payload" where
  "decode_document cr document =
     (case messageFromAsn1 cr document of
        None \<Rightarrow> Inl ''Error extracting PKCS#7 message''
      | Some msg \<Rightarrow>
     (case (rawContent msg, certificates msg, rawSignature msg) of
        (Some content, [crt], Some sig) \<Rightarrow>
          (case publicKeyToPem cr crt of
             None \<Rightarrow> Inl ''Error extracting PKCS#7 message content''
           | Some pem \<Rightarrow>
               if \<not> verify cr pem content sig then Inl ''Error verifying PKCS#7 message signature''
               else if \<not> verifyCertificateChain cr crt then Inl ''Error verifying certificate chain''
               else (case json_parse cr content of
                       None \<Rightarrow> Inl ''Payload was not valid JSON''
                     | Some p \<Rightarrow> Inr p))
      | _ \<Rightarrow> Inl ''Error extracting PKCS#7 message content''))"

text \<open>
  The local \<^verbatim>\<open>workerVmId\<close>: the vmId of the row, or the one \<^verbatim>\<open>fetchVmInfo\<close> reads (and
  writes to the row) when the row has none.
\<close>

definition workerVmId :: "cloud \<Rightarrow> pstate \<Rightarrow> (err + string option) \<times> pstate" where
  "workerVmId cl s =
     (if \<not> truthy (vmId (vm (providerData (worker s)))) then
        (case fetchVmInfo cl s of
           (Inl e, s1) \<Rightarrow> (Inl e, s1)
         | (Inr (provState, fetched), s1) \<Rightarrow> (Inr fetched, s1))
      else (Inr (vmId (vm (providerData (worker s)))), s))"

text \<open>
  The checks of the payload and of the state are made in this order; the warning logged
  when the vmId or the time stamp check fails reads \<^verbatim>\<open>payload.vmId\<close> or
  \<^verbatim>\<open>payload.timeStamp.expiresOn\<close> again, so that a TypeError of the check is thrown anew
  from the \<^verbatim>\<open>catch\<close> block: nothing is logged and the TypeError leaves \<^verbatim>\<open>registerWorker\<close>.
\<close>

definition registerWorker :: "env \<Rightarrow> crypto \<Rightarrow> cloud \<Rightarrow> string \<Rightarrow> pstate
    \<Rightarrow> (err + int \<times> (string \<times> string) list) \<times> pstate" where
  "registerWorker ev cr cl document s =
     (case decode_document cr document of
        Inl msg \<Rightarrow> registration_error msg s
      | Inr pl \<Rightarrow>
     (case workerVmId cl s of
        (Inl e, s1) \<Rightarrow> (Inl e, s1)
      | (Inr vmId', s1) \<Rightarrow>
     (case pl of
        Null \<Rightarrow> (Inl (Error ''TypeError: Cannot read property vmId of null''), s1)
      | Object p \<Rightarrow>
     if p_vmId p \<noteq> vmId' then registration_error ''vmId mismatch'' s1
     else
     (case timeStamp p of
        None \<Rightarrow> (Inl (Error ''TypeError: Cannot read property expiresOn of undefined''), s1)
      | Some ts \<Rightarrow>
     if \<not> (case expiresOn ts of None \<Rightarrow> False | Some t \<Rightarrow> t > now ev)
       then registration_error ''Expired message'' s1
     else if state (worker s1) \<noteq> REQUESTED
       then registration_error ''Worker was already running.'' s1
     else
       (let expires' = (case reregistrationTimeout (providerData (worker s1)) of
                          None \<Rightarrow> now ev + 4 * day
                        | Some t \<Rightarrow> if t \<noteq> 0 then now ev + t else now ev + 4 * day);
            s2 = update (\<lambda>w. pd_update (\<lambda>pd. pd\<lparr>terminateAfter := Some expires'\<rparr>)
                               (w\<lparr>lastModified := now ev, state := RUNNING\<rparr>))
                   (s1\<lparr>monitor := monitor s1 @ [WorkerRunning]\<rparr>)
        in (Inr (expires',
                 case workerConfig (providerData (worker s2)) of None \<Rightarrow> [] | Some c \<Rightarrow> c),
            s2))))))"

subsection \<open>\<^verbatim>\<open>provision\<close>: the worker row of one launch configuration\<close>

record launchConfig =
  capacityPerInstance :: nat
  lc_location :: string
  subnetId :: string
  lc_tags :: "tags option"
  lc_workerConfig :: "(string \<times> string) list option"

record provider =
  providerId :: string
  rootUrl :: string
  pc_resourceGroupName :: string

record workerPool =
  wp_workerPoolId :: string
  owner :: string

record lifecycle =
  lf_terminateAfter :: "int option"
  lf_reregistrationTimeout :: "int option"

text \<open>
  \<^verbatim>\<open>{...cfg.tags || {}, 'created-by': ..., ..., 'owner': workerPool.owner}\<close>: an object
  is an association list read with \<open>map_of\<close>, and a key written after a spread
  replaces the value the spread gave it.
\<close>

definition provider_tags :: "provider \<Rightarrow> workerPool \<Rightarrow> string \<Rightarrow> tags option \<Rightarrow> tags" where
  "provider_tags pr wp wg userTags =
     AList.update ''owner'' (owner wp)
    (AList.update ''root-url'' (rootUrl pr)
    (AList.update ''worker-pool-id'' (wp_workerPoolId wp)
    (AList.update ''worker-group'' wg
    (AList.update ''provider-id'' (providerId pr)
    (AList.update ''managed-by'' ''taskcluster''
    (AList.update ''created-by'' (''taskcluster-wm-'' @ providerId pr)
       (case userTags of None \<Rightarrow> [] | Some t \<Rightarrow> t)))))))"

text \<open>
  The reserved keys with the values the provider computes for them, as the
  specification lists them.
\<close>

definition reserved_tags :: "provider \<Rightarrow> workerPool \<Rightarrow> string \<Rightarrow> (string \<times> string) list" where
  "reserved_tags pr wp wg =
     [(''created-by'', ''taskcluster-wm-'' @ providerId pr),
      (''managed-by'', ''taskcluster''),
      (''provider-id'', providerId pr),
      (''worker-group'', wg),
      (''worker-pool-id'', wp_workerPoolId wp),
      (''root-url'', rootUrl pr),
      (''owner'', owner wp)]"

text \<open>
  The function \<^verbatim>\<open>provision\<close> maps over the sampled launch configurations. The result
  is the row \<^verbatim>\<open>Worker.fromApi\<close> builds and \<^verbatim>\<open>worker.create\<close> stores; the life cycle
  comes from \<^verbatim>\<open>Provider.interpretLifecycle\<close>.
  Modelled from the spec: the defaults of \<^verbatim>\<open>Worker.fromApi\<close> (\<^verbatim>\<open>../data\<close> is not among the
  sources): state \<open>requested\<close>, the time stamps at the time of creation.
\<close>

definition provision_worker :: "env \<Rightarrow> provider \<Rightarrow> workerPool \<Rightarrow> lifecycle \<Rightarrow> launchConfig
    \<Rightarrow> err + worker" where
  "provision_worker ev pr wp lf cfg =
     (let virtualMachineName = take 38 (''vm-'' @ nicerId ev 0 @ ''-'' @ nicerId ev 1);
          computerName' = take 15 (nicerId ev 2);
          ipAddressName = take 24 (''pip-'' @ nicerId ev 3);
          networkInterfaceName = take 24 (''nic-'' @ nicerId ev 4);
          workerGroup' = lc_location cfg
      in if workerGroup' = [] then Inl (Error ''cfg.location is not set'')
         else Inr
          \<lparr>workerPoolId = wp_workerPoolId wp,
           workerGroup = workerGroup',
           workerId = virtualMachineName,
           capacity = capacityPerInstance cfg,
           state = REQUESTED,
           lastModified = now ev,
           lastChecked = now ev,
           expires = now ev + 7 * day,
           providerData =
             \<lparr>location = lc_location cfg,
              resourceGroupName = pc_resourceGroupName pr,
              workerConfig = lc_workerConfig cfg,
              tags = provider_tags pr wp workerGroup' (lc_tags cfg),
              vm = \<lparr>r_name = virtualMachineName, r_operation = None, r_id = NoId,
                    vmId = None,
                    config =
                      \<lparr>cfg_location = lc_location cfg,
                       cfg_tags = lc_tags cfg,
                       osProfile = Some
                         \<lparr>computerName = computerName',
                          customData =
                            \<lparr>cd_workerPoolId = wp_workerPoolId wp,
                             cd_providerId = providerId pr,
                             cd_workerGroup = workerGroup',
                             cd_rootUrl = rootUrl pr,
                             cd_workerConfig =
                               (case lc_workerConfig cfg of None \<Rightarrow> [] | Some c \<Rightarrow> c)\<rparr>,
                          adminUsername = None,
                          adminPassword = None\<rparr>,
                       networkInterfaces = []\<rparr>\<rparr>,
              ip = \<lparr>r_name = ipAddressName, r_operation = None, r_id = NoId\<rparr>,
              nic = \<lparr>r_name = networkInterfaceName, r_operation = None, r_id = NoId\<rparr>,
              disks = Some [],
              disk = None,
              subnet_id = subnetId cfg,
              terminateAfter = lf_terminateAfter lf,
              reregistrationTimeout = lf_reregistrationTimeout lf\<rparr>\<rparr>)"

subsection \<open>Sequences of operations on one worker\<close>

datatype operation =
    CheckWorker
  | ProvisionResources
  | RemoveWorker removal_reason
  | RegisterWorker string

fun perform :: "crypto \<Rightarrow> cloud \<Rightarrow> env \<Rightarrow> operation \<Rightarrow> pstate \<Rightarrow> pstate" where
  "perform cr cl ev CheckWorker s = snd (checkWorker ev cl s)"
| "perform cr cl ev ProvisionResources s = snd (provisionResources ev cl s)"
| "perform cr cl ev (RemoveWorker why) s = snd (removeWorker ev cl why s)"
| "perform cr cl ev (RegisterWorker document) s = snd (registerWorker ev cr cl document s)"

fun run :: "crypto \<Rightarrow> cloud \<Rightarrow> (env \<times> operation) list \<Rightarrow> pstate \<Rightarrow> pstate" where
  "run cr cl [] s = s"
| "run cr cl ((ev, op) # rest) s = run cr cl rest (perform cr cl ev op s)"

subsection \<open>The order of removal, read off the calls\<close>

fun is404 :: "err + 'a \<Rightarrow> bool" where
  "is404 (Inl e) = (statusCode e = Some 404)"
| "is404 (Inr x) = False"

text \<open>
  What has to be verified gone before a resource of a client may be deleted: the VM
  before the NIC, the NIC before the IP, the IP before a disk.
\<close>

fun deleted_before :: "client \<Rightarrow> client option" where
  "deleted_before VirtualMachines = None"
| "deleted_before NetworkInterfaces = Some VirtualMachines"
| "deleted_before PublicIPAddresses = Some NetworkInterfaces"
| "deleted_before Disks = Some PublicIPAddresses"

text \<open>
  A monitor over the calls of one invocation of \<^verbatim>\<open>removeWorker\<close>. It keeps the
  clients whose resource a GET of this invocation has answered with 404 (verified
  gone), and accepts a \<^verbatim>\<open>beginDeleteMethod\<close> only when what has to go before is among
  them.
\<close>

fun verified_gone :: "client list \<Rightarrow> event list \<Rightarrow> client list" where
  "verified_gone G [] = G"
| "verified_gone G (Get c rg n r # es) = verified_gone (if is404 r then c # G else G) es"
| "verified_gone G (e # es) = verified_gone G es"

fun removal_order_ok :: "client list \<Rightarrow> event list \<Rightarrow> bool" where
  "removal_order_ok G [] = True"
| "removal_order_ok G (Get c rg n r # es) = removal_order_ok (if is404 r then c # G else G) es"
| "removal_order_ok G (BeginDeleteMethod c rg n # es) =
     ((case deleted_before c of None \<Rightarrow> True | Some p \<Rightarrow> p \<in> set G) \<and> removal_order_ok G es)"
| "removal_order_ok G (e # es) = removal_order_ok G es"

fun deleted_clients :: "event list \<Rightarrow> client list" where
  "deleted_clients [] = []"
| "deleted_clients (BeginDeleteMethod c rg n # es) = c # deleted_clients es"
| "deleted_clients (e # es) = deleted_clients es"

text \<open>The create requests among the calls, in order: client, name and request.\<close>

fun creates :: "event list \<Rightarrow> (client \<times> string \<times> request) list" where
  "creates [] = []"
| "creates (BeginCreateOrUpdate c rg n req # es) = (c, n, req) # creates es"
| "creates (e # es) = creates es"

text \<open>The calls an operation added to those of the state it started from.\<close>

definition new_calls :: "pstate \<Rightarrow> pstate \<Rightarrow> event list" where
  "new_calls s s' = drop (length (calls s)) (calls s')"

text \<open>The rows an operation wrote, in order.\<close>

definition new_writes :: "pstate \<Rightarrow> pstate \<Rightarrow> worker list" where
  "new_writes s s' = drop (length (written s)) (written s')"

subsection \<open>A cloud that makes no progress\<close>

fun clientOf :: "rtype \<Rightarrow> client" where
  "clientOf IP = PublicIPAddresses"
| "clientOf NIC = NetworkInterfaces"
| "clientOf VM = VirtualMachines"

text \<open>The number of create requests to a client among some calls.\<close>

definition creates_of :: "client \<Rightarrow> event list \<Rightarrow> nat" where
  "creates_of c evs = length (filter (\<lambda>x. fst x = c) (creates evs))"

text \<open>
  An answer to the poll of an operation that \<^verbatim>\<open>handleOperation\<close> reads as still in
  progress, and an answer to \<^verbatim>\<open>beginCreateOrUpdate\<close> that has an operation to store.
\<close>

fun polls_in_progress :: "err + op_response \<Rightarrow> bool" where
  "polls_in_progress (Inl e) = True"
| "polls_in_progress (Inr resp) =
     (status resp \<noteq> 404 \<and>
      (case parsedBody resp of None \<Rightarrow> False | Some body \<Rightarrow> b_status body = ''InProgress''))"

fun gives_operation :: "err + string option \<Rightarrow> bool" where
  "gives_operation (Inr (Some u)) = (u \<noteq> [])"
| "gives_operation r = False"

text \<open>
  No progress for the resources of a client: every GET by name is answered with 404,
  every create request is accepted with an operation to poll, and every poll says the
  operation is still in progress.
\<close>

definition no_progress :: "cloud \<Rightarrow> client \<Rightarrow> bool" where
  "no_progress cl c \<longleftrightarrow>
     (\<forall>i rg n. is404 (c_get cl i c rg n))
   \<and> (\<forall>i rg n req. gives_operation (c_beginCreateOrUpdate cl i c rg n req))
   \<and> (\<forall>i op. polls_in_progress (c_sendLongRunningRequest cl i op))"

subsection \<open>Concrete rows, clouds and documents\<close>

text \<open>
  The state of a provider that has made no call yet, and the inputs the theorems below
  are tried on: a clock, a row as \<^verbatim>\<open>provision\<close> leaves it
  (after the tests of the repository: resource group \<open>rgrp\<close>, location \<open>westus\<close>), a
  cloud that answers every GET of a client the same way, and a document the libraries
  accept, whose payload names the VM \<open>5d06deb3\<close> and expires at time 5000.
\<close>

definition ex_env :: env where
  "ex_env = \<lparr>now = 1000, workerPoolExists = True,
             nicerId = (\<lambda>k. ''q7xvn2ab'' @ replicate k CHR ''z''),
             generateAdminPassword = ''Pa55-word''\<rparr>"

definition ex_worker :: worker where
  "ex_worker =
     \<lparr>workerPoolId = ''foo/bar'', workerGroup = ''westus'', workerId = ''some-vm'',
      capacity = 1, state = REQUESTED, lastModified = 0, lastChecked = 0,
      expires = 900000000,
      providerData =
        \<lparr>location = ''westus'', resourceGroupName = ''rgrp'', workerConfig = None,
         tags = [(''created-by'', ''taskcluster-wm-azure'')],
         vm = \<lparr>r_name = ''some-vm'', r_operation = None, r_id = NoId, vmId = None,
               config = \<lparr>cfg_location = ''westus'', cfg_tags = None,
                         osProfile = Some \<lparr>computerName = ''q7xvn2ab'',
                            customData = \<lparr>cd_workerPoolId = ''foo/bar'', cd_providerId = ''azure'',
                              cd_workerGroup = ''westus'', cd_rootUrl = ''https://tc.example.com'',
                              cd_workerConfig = []\<rparr>,
                            adminUsername = None, adminPassword = None\<rparr>,
                         networkInterfaces = []\<rparr>\<rparr>,
         ip = \<lparr>r_name = ''some-ip'', r_operation = None, r_id = NoId\<rparr>,
         nic = \<lparr>r_name = ''some-nic'', r_operation = None, r_id = NoId\<rparr>,
         disks = Some [], disk = None, subnet_id = ''some/subnet'',
         terminateAfter = None, reregistrationTimeout = None\<rparr>\<rparr>"

definition fresh_state :: "worker \<Rightarrow> pstate" where
  "fresh_state w =
     \<lparr>worker = w, written = [], calls = [], errors = [], seen = 0, reported = [], monitor = []\<rparr>"

definition not_found :: "err + 'a" where
  "not_found = Inl (CloudError 404 ''ResourceNotFound'')"

definition ex_vm :: "string \<Rightarrow> cloud_resource" where
  "ex_vm ps =
     \<lparr>cr_id = Some ''id/some-vm'', provisioningState = Some ps, cr_vmId = Some ''5d06deb3'',
      osDiskName = ''osdisk0'', dataDiskNames = []\<rparr>"

definition ex_resource :: "string \<Rightarrow> err + cloud_resource" where
  "ex_resource ps = Inr (ex_vm ps)"

definition ex_cloud :: "(client \<Rightarrow> err + cloud_resource) \<Rightarrow> (err + string list) \<Rightarrow> cloud" where
  "ex_cloud answer view =
     \<lparr>c_get = (\<lambda>i c rg n. answer c),
      c_beginCreateOrUpdate = (\<lambda>i c rg n req. Inr (Some (''op/'' @ n))),
      c_beginDeleteMethod = (\<lambda>i c rg n. Inr (Some (''op/delete/'' @ n))),
      c_instanceView = (\<lambda>i rg n. view),
      c_sendLongRunningRequest =
        (\<lambda>i op. Inr \<lparr>status = 200,
                      parsedBody = Some \<lparr>b_status = ''InProgress'', b_error = None\<rparr>\<rparr>)\<rparr>"

definition ex_payload :: payload where
  "ex_payload = Object \<lparr>p_vmId = Some ''5d06deb3'', timeStamp = Some \<lparr>expiresOn = Some 5000\<rparr>\<rparr>"

definition ex_crypto :: crypto where
  "ex_crypto =
     \<lparr>messageFromAsn1 = (\<lambda>d. if d = ''signed'' then
          Some \<lparr>rawContent = Some ''content'', certificates = [''crt''],
                rawSignature = Some ''sig''\<rparr> else None),
      publicKeyToPem = (\<lambda>c. Some (''pem:'' @ c)),
      verify = (\<lambda>pem content sig. pem = ''pem:crt'' \<and> sig = ''sig''),
      verifyCertificateChain = (\<lambda>c. c = ''crt''),
      json_parse = (\<lambda>c. if c = ''content'' then
          Some ex_payload else None)\<rparr>"

definition cloud_absent :: cloud where
  "cloud_absent = ex_cloud (\<lambda>c. not_found) not_found"

definition cloud_healthy :: cloud where
  "cloud_healthy = ex_cloud (\<lambda>c. ex_resource ''Succeeded'') (Inr [''PowerState/running''])"

definition cloud_no_view :: cloud where
  "cloud_no_view = ex_cloud (\<lambda>c. ex_resource ''Succeeded'') not_found"

definition cloud_mixed_power :: cloud where
  "cloud_mixed_power =
     ex_cloud (\<lambda>c. ex_resource ''Succeeded'') (Inr [''PowerState/running'', ''PowerState/stopped''])"

definition cloud_deleting :: cloud where
  "cloud_deleting = ex_cloud (\<lambda>c. ex_resource ''Deleting'') (Inr [''PowerState/running''])"

definition running_worker :: worker where
  "running_worker = ex_worker\<lparr>state := RUNNING\<rparr>"

definition registered_worker :: worker where
  "registered_worker =
     pd_update (\<lambda>pd. pd\<lparr>vm := (vm pd)\<lparr>vmId := Some ''5d06deb3''\<rparr>\<rparr>) running_worker"

definition stopped_worker :: worker where
  "stopped_worker = ex_worker\<lparr>state := STOPPED\<rparr>"

text \<open>A requested worker whose IP and NIC exist and whose VM has been asked for.\<close>

definition vm_requested_worker :: worker where
  "vm_requested_worker =
     pd_update (\<lambda>pd. pd\<lparr>ip := (ip pd)\<lparr>r_id := Id ''id/some-ip''\<rparr>,
                          nic := (nic pd)\<lparr>r_id := Id ''id/some-nic''\<rparr>,
                          vm := (vm pd)\<lparr>r_operation := Some ''op/some-vm''\<rparr>\<rparr>) ex_worker"

text \<open>A running worker with all its resources, as the removal tests of the repository make it.\<close>

definition provisioned_worker :: worker where
  "provisioned_worker =
     pd_update (\<lambda>pd. pd\<lparr>ip := (ip pd)\<lparr>r_id := Id ''id/some-ip''\<rparr>,
                          nic := (nic pd)\<lparr>r_id := Id ''id/some-nic''\<rparr>,
                          vm := (vm pd)\<lparr>r_id := Id ''id/some-vm''\<rparr>,
                          disks := Some [\<lparr>r_name = ''disks0'', r_operation = None,
                                          r_id = Id ''id/disks0''\<rparr>]\<rparr>) running_worker"

text \<open>Rows of before the change from \<^verbatim>\<open>disk\<close> to \<^verbatim>\<open>disks\<close>, and one that has both.\<close>

definition legacy_worker :: worker where
  "legacy_worker =
     pd_update (\<lambda>pd. pd\<lparr>disks := None,
        disk := Some \<lparr>r_name = ''old_test_disk'', r_operation = None, r_id = NoId\<rparr>\<rparr>)
       running_worker"

definition both_worker :: worker where
  "both_worker =
     pd_update (\<lambda>pd. pd\<lparr>disks := Some
          [\<lparr>r_name = ''osdisk0'', r_operation = None, r_id = IdTrue\<rparr>,
           \<lparr>r_name = ''datadisk1'', r_operation = None, r_id = IdTrue\<rparr>],
        disk := Some \<lparr>r_name = ''old_test_disk'', r_operation = None, r_id = NoId\<rparr>\<rparr>)
       running_worker"

text \<open>
  A pool with one launch configuration whose user tags contain a reserved key, and the row
  \<^verbatim>\<open>provision\<close> makes for it.
\<close>

definition ex_provider :: provider where
  "ex_provider = \<lparr>providerId = ''azure'', rootUrl = ''https://tc.example.com'',
                   pc_resourceGroupName = ''rgrp''\<rparr>"

definition ex_pool :: workerPool where
  "ex_pool = \<lparr>wp_workerPoolId = ''foo/bar'', owner = ''whatever@example.com''\<rparr>"

definition ex_launchConfig :: launchConfig where
  "ex_launchConfig =
     \<lparr>capacityPerInstance = 1, lc_location = ''westus'', subnetId = ''some/subnet'',
      lc_tags = Some [(''created-by'', ''me!''), (''mytag'', ''myvalue'')],
      lc_workerConfig = None\<rparr>"

definition ex_provisioned :: worker where
  "ex_provisioned =
     (case provision_worker ex_env ex_provider ex_pool
             \<lparr>lf_terminateAfter = Some 345601000, lf_reregistrationTimeout = Some 345600000\<rparr>
             ex_launchConfig of
        Inr w \<Rightarrow> w
      | Inl e \<Rightarrow> ex_worker)"

subsection \<open>Notions used in the proofs\<close>

text \<open>
  An observation of the state that the removal of resources cannot change: it does not
  depend on the calls that are not create requests, on the errors collected, on the
  operation and id of a resource, or on the step to \<open>stopped\<close>.
\<close>

definition removal_frame :: "(pstate \<Rightarrow> 'a) \<Rightarrow> bool" where
  "removal_frame P \<longleftrightarrow>
     (\<forall>s evs. creates evs = [] \<longrightarrow> P (s\<lparr>calls := calls s @ evs\<rparr>) = P s)
   \<and> (\<forall>s es. P (s\<lparr>errors := es\<rparr>) = P s)
   \<and> (\<forall>s tgt fo fi. P (update (pd_update (modify_resource tgt fo fi)) s) = P s)
   \<and> (\<forall>s lm lc st.
        P (update (\<lambda>w. w\<lparr>lastModified := lm w, lastChecked := lc, state := st\<rparr>) s) = P s)"

text \<open>
  An observation that a pass of the scanner over an observable VM cannot change, and one
  that the provisioning of resources cannot change either: it may depend on the create
  requests made, but not on one that carries the tags of the row.
\<close>

text \<open>Calls that are all a GET or a delete of one client.\<close>

definition only_client :: "client \<Rightarrow> event list \<Rightarrow> bool" where
  "only_client c evs \<longleftrightarrow>
     list_all (\<lambda>e. case e of Get c' rg n r \<Rightarrow> c' = c
                        | BeginDeleteMethod c' rg n \<Rightarrow> c' = c
                        | _ \<Rightarrow> False) evs"

text \<open>What the calls of one removal have to satisfy, from the row it started with.\<close>

definition removal_gated :: "providerData \<Rightarrow> event list \<Rightarrow> bool" where
  "removal_gated pd evs \<longleftrightarrow>
     removal_order_ok [] evs
   \<and> (truthy_id (r_id (vm pd)) \<longrightarrow> set (deleted_clients evs) \<subseteq> {VirtualMachines})
   \<and> (truthy_id (r_id (nic pd)) \<longrightarrow>
        set (deleted_clients evs) \<subseteq> {VirtualMachines, NetworkInterfaces})
   \<and> (truthy_id (r_id (ip pd)) \<longrightarrow> Disks \<notin> set (deleted_clients evs))"

definition scan_frame :: "(pstate \<Rightarrow> 'a) \<Rightarrow> bool" where
  "scan_frame P \<longleftrightarrow>
     removal_frame P
   \<and> (\<forall>s m. P (s\<lparr>monitor := m\<rparr>) = P s)
   \<and> (\<forall>s n. P (s\<lparr>seen := n\<rparr>) = P s)
   \<and> (\<forall>s r. P (s\<lparr>reported := r\<rparr>) = P s)
   \<and> (\<forall>s t. P (update (\<lambda>w. w\<lparr>expires := t\<rparr>) s) = P s)
   \<and> (\<forall>s v. P (update (pd_update (\<lambda>pd. pd\<lparr>vm := (vm pd)\<lparr>vmId := v\<rparr>\<rparr>)) s) = P s)"

definition pipeline_frame :: "(pstate \<Rightarrow> 'a) \<Rightarrow> bool" where
  "pipeline_frame P \<longleftrightarrow>
     scan_frame P
   \<and> (\<forall>s evs. list_all (\<lambda>x. req_tags (snd (snd x)) = tags (providerData (worker s))) (creates evs)
        \<longrightarrow> P (s\<lparr>calls := calls s @ evs\<rparr>) = P s)
   \<and> (\<forall>s res g. P (update (\<lambda>w. nicModifyFunc res (g w)) s) = P (update g s))
   \<and> (\<forall>s res g. P (update (\<lambda>w. vmModifyFunc res (g w)) s) = P (update g s))"

text \<open>
  The rows in which the pipeline waits for the resource of a type: the resources before it
  exist, it has no id yet and an operation to poll.
\<close>

fun waiting_for :: "rtype \<Rightarrow> providerData \<Rightarrow> bool" where
  "waiting_for IP pd = (\<not> truthy_id (r_id (ip pd)) \<and> truthy (r_operation (ip pd)))"
| "waiting_for NIC pd =
     (truthy_id (r_id (ip pd)) \<and> \<not> truthy_id (r_id (nic pd)) \<and> truthy (r_operation (nic pd)))"
| "waiting_for VM pd =
     (truthy_id (r_id (ip pd)) \<and> truthy_id (r_id (nic pd)) \<and> osProfile (config (vm pd)) \<noteq> None
      \<and> \<not> truthy_id (r_id (vm pd)) \<and> truthy (r_operation (vm pd)))"

text \<open>A property of the state that the removal of resources keeps: it survives the clearing
  of an id.\<close>

definition removal_inv :: "(pstate \<Rightarrow> bool) \<Rightarrow> bool" where
  "removal_inv Q \<longleftrightarrow>
     (\<forall>s evs. Q s \<longrightarrow> Q (s\<lparr>calls := evs\<rparr>))
   \<and> (\<forall>s es. Q s \<longrightarrow> Q (s\<lparr>errors := es\<rparr>))
   \<and> (\<forall>s m. Q s \<longrightarrow> Q (s\<lparr>monitor := m\<rparr>))
   \<and> (\<forall>s tgt fo. Q s \<longrightarrow> Q (update (pd_update (modify_resource tgt fo (\<lambda>_. NoId))) s))
   \<and> (\<forall>s lm lc st. Q s \<longrightarrow>
        Q (update (\<lambda>w. w\<lparr>lastModified := lm w, lastChecked := lc, state := st\<rparr>) s))"

text \<open>
  The row without the fields that the scanner and the registration write for a worker
  that is \<open>stopped\<close> (\<^verbatim>\<open>lastChecked\<close>, \<^verbatim>\<open>expires\<close>, \<^verbatim>\<open>providerData.vm.vmId\<close> and
  \<^verbatim>\<open>providerData.disks\<close>), and the row without the fields that the provisioning of
  resources writes (\<^verbatim>\<open>operation\<close> and \<^verbatim>\<open>id\<close> of the IP, the NIC and the VM, the network
  interfaces of the VM's configuration and \<^verbatim>\<open>providerData.disks\<close>). Two rows have the same
  image when they differ in these fields at most.
\<close>

definition except_scanned :: "worker \<Rightarrow> worker" where
  "except_scanned w =
     pd_update (\<lambda>pd. pd\<lparr>disks := None, vm := (vm pd)\<lparr>vmId := None\<rparr>\<rparr>)
       (w\<lparr>lastChecked := 0, expires := 0\<rparr>)"

definition except_provisioned :: "worker \<Rightarrow> worker" where
  "except_provisioned w =
     pd_update (\<lambda>pd. pd\<lparr>disks := None,
                          ip := (ip pd)\<lparr>r_operation := None, r_id := NoId\<rparr>,
                          nic := (nic pd)\<lparr>r_operation := None, r_id := NoId\<rparr>,
                          vm := (vm pd)\<lparr>r_operation := None, r_id := NoId,
                                  config := (config (vm pd))\<lparr>networkInterfaces := []\<rparr>\<rparr>\<rparr>) w"

text \<open>The row has the tags \<open>T\<close>, and so has every create request made so far.\<close>

definition tag_inv :: "tags \<Rightarrow> pstate \<Rightarrow> bool" where
  "tag_inv T s \<longleftrightarrow>
     tags (providerData (worker s)) = T
   \<and> list_all (\<lambda>x. req_tags (snd (snd x)) = T) (creates (calls s))"

section \<open>Properties\<close>

subsection \<open>The update of a row\<close>

lemma update_simps [simp]:
  "worker (update f s) = f (worker s)"
  "calls (update f s) = calls s"
  "errors (update f s) = errors s"
  "seen (update f s) = seen s"
  "reported (update f s) = reported s"
  "monitor (update f s) = monitor s"
  "written (update f s) = written s @ [f (worker s)]"
  by (simp_all add: update_def)

lemma pd_update_simps [simp]:
  "providerData (pd_update f w) = f (providerData w)"
  "state (pd_update f w) = state w"
  "lastModified (pd_update f w) = lastModified w"
  "lastChecked (pd_update f w) = lastChecked w"
  "expires (pd_update f w) = expires w"
  "capacity (pd_update f w) = capacity w"
  by (simp_all add: pd_update_def)

lemma ex_decode: "decode_document ex_crypto ''signed'' = Inr ex_payload"
  by (simp add: decode_document_def ex_crypto_def)

subsection \<open>What the removal of resources leaves alone\<close>

lemmas enqueue_defs = enqueue_get_def enqueue_beginCreateOrUpdate_def enqueue_beginDeleteMethod_def
  enqueue_instanceView_def enqueue_opRead_def

lemma removeWorker_stopped:
  "state (worker s) = STOPPED \<Longrightarrow>
   removeWorker ev cl why s = (STOPPED, s\<lparr>monitor := monitor s @ [WorkerRemoved why]\<rparr>)"
  by (simp add: removeWorker_def Let_def)

lemma fetchVmInfo_life:
  "state (worker (snd (fetchVmInfo cl s))) = state (worker s)"
  "lastModified (worker (snd (fetchVmInfo cl s))) = lastModified (worker s)"
  by (auto simp: fetchVmInfo_def enqueue_get_def Let_def split: sum.splits)

lemma reportError_worker [simp]: "worker (reportError ev e s) = worker s"
  by (simp add: reportError_def)

lemma removal_frameD:
  assumes "removal_frame P"
  shows "creates evs = [] \<Longrightarrow> P (s\<lparr>calls := calls s @ evs\<rparr>) = P s"
    and "P (s\<lparr>errors := es\<rparr>) = P s"
    and "P (update (pd_update (modify_resource tgt fo fi)) s) = P s"
    and "P (update (\<lambda>w. w\<lparr>lastModified := lm w, lastChecked := lc, state := st\<rparr>) s) = P s"
  using assms by (simp_all add: removal_frame_def)

lemma removeResource_frame:
  assumes "removal_frame P"
  shows "P (snd (removeResource cl c tgt s)) = P s"
  by (auto simp: removeResource_def deleteResource_def enqueue_get_def
        enqueue_beginDeleteMethod_def Let_def removal_frameD [OF assms]
      split: sum.splits prod.splits if_splits)

lemma removeDisks_frame:
  assumes "removal_frame P"
  shows "P (snd (removeDisks cl is b s)) = P s"
proof (induction "is" arbitrary: b s)
  case Nil
  show ?case by simp
next
  case (Cons i "is")
  show ?case
    using Cons.IH removeResource_frame [OF assms, of cl Disks "DiskAt i" s]
    by (auto split: prod.splits sum.splits)
qed

lemma removeWorker_try_frame:
  assumes "removal_frame P"
  shows "P (snd (removeWorker_try ev cl s)) = P s"
proof -
  note rr = removeResource_frame [OF assms] and rd = removeDisks_frame [OF assms]
  have step: "\<And>c tgt s r s'. removeResource cl c tgt s = (r, s') \<Longrightarrow> P s' = P s"
    using rr by (metis snd_conv)
  have stepd: "\<And>is b s r s'. removeDisks cl is b s = (r, s') \<Longrightarrow> P s' = P s"
    using rd by (metis snd_conv)
  show ?thesis
    unfolding removeWorker_try_def
    by (auto split: prod.splits sum.splits option.splits dest!: step stepd
             simp: removal_frameD [OF assms])
qed

lemma removeWorker_frame:
  assumes "removal_frame P"
  shows "P (snd (removeWorker ev cl why s)) = P (s\<lparr>monitor := monitor s @ [WorkerRemoved why]\<rparr>)"
  using removeWorker_try_frame [OF assms, of ev cl "s\<lparr>monitor := monitor s @ [WorkerRemoved why]\<rparr>"]
  by (auto simp: removeWorker_def Let_def removal_frameD [OF assms] split: prod.splits sum.splits)

lemma removal_frame_monitor: "removal_frame monitor"
  by (simp add: removal_frame_def)

lemma modify_resource_other [simp]:
  "tags (modify_resource tgt fo fi pd) = tags pd"
  "disk (modify_resource tgt fo fi pd) = disk pd"
  "resourceGroupName (modify_resource tgt fo fi pd) = resourceGroupName pd"
  "location (modify_resource tgt fo fi pd) = location pd"
  "subnet_id (modify_resource tgt fo fi pd) = subnet_id pd"
  "workerConfig (modify_resource tgt fo fi pd) = workerConfig pd"
  "terminateAfter (modify_resource tgt fo fi pd) = terminateAfter pd"
  "reregistrationTimeout (modify_resource tgt fo fi pd) = reregistrationTimeout pd"
  "vmId (vm (modify_resource tgt fo fi pd)) = vmId (vm pd)"
  "config (vm (modify_resource tgt fo fi pd)) = config (vm pd)"
  "r_name (vm (modify_resource tgt fo fi pd)) = r_name (vm pd)"
  "r_name (ip (modify_resource tgt fo fi pd)) = r_name (ip pd)"
  "r_name (nic (modify_resource tgt fo fi pd)) = r_name (nic pd)"
  by (induction tgt fo fi pd rule: modify_resource.induct; simp add: modify_def)+

lemma map_name_update:
  "i < length ds \<Longrightarrow> map r_name (ds[i := modify fo fi (ds ! i)]) = map r_name ds"
  by (simp add: map_update modify_def list_update_same_conv)

lemma modify_resource_disk_names [simp]:
  "map_option (map r_name) (disks (modify_resource tgt fo fi pd)) = map_option (map r_name) (disks pd)"
proof (induction tgt fo fi pd rule: modify_resource.induct)
  case (4 i fo fi pd)
  show ?case by (cases "disks pd") (simp_all add: map_name_update)
qed simp_all

lemma removal_frame_tags: "removal_frame (\<lambda>s. tags (providerData (worker s)))"
  by (simp add: removal_frame_def)

lemma removeWorker_monitor:
  "monitor (snd (removeWorker ev cl why s)) = monitor s @ [WorkerRemoved why]"
  using removeWorker_frame [OF removal_frame_monitor] by simp

subsection \<open>The order of removal\<close>

lemma only_client_simps [simp]:
  "only_client c []"
  "only_client c (Get c' rg n r # es) = (c' = c \<and> only_client c es)"
  "only_client c (BeginDeleteMethod c' rg n # es) = (c' = c \<and> only_client c es)"
  "only_client c (xs @ ys) = (only_client c xs \<and> only_client c ys)"
  by (simp_all add: only_client_def)

lemma verified_gone_append [simp]:
  "verified_gone G (xs @ ys) = verified_gone (verified_gone G xs) ys"
  by (induction G xs rule: verified_gone.induct) simp_all

lemma removal_order_ok_append [simp]:
  "removal_order_ok G (xs @ ys)
     = (removal_order_ok G xs \<and> removal_order_ok (verified_gone G xs) ys)"
  by (induction G xs rule: removal_order_ok.induct) simp_all

lemma deleted_clients_append [simp]:
  "deleted_clients (xs @ ys) = deleted_clients xs @ deleted_clients ys"
  by (induction xs rule: deleted_clients.induct) simp_all

lemma verified_gone_mono: "set G \<subseteq> set (verified_gone G evs)"
  by (induction G evs rule: verified_gone.induct) auto

lemma only_client_order:
  "only_client c evs \<Longrightarrow> (case deleted_before c of None \<Rightarrow> True | Some p \<Rightarrow> p \<in> set G)
     \<Longrightarrow> removal_order_ok G evs"
  by (induction G evs rule: removal_order_ok.induct)
     (auto simp: only_client_def split: option.splits)

lemma only_client_deleted: "only_client c evs \<Longrightarrow> set (deleted_clients evs) \<subseteq> {c}"
  by (induction evs rule: deleted_clients.induct) (auto simp: only_client_def)

lemma new_calls_append [simp]: "calls s' = calls s @ evs \<Longrightarrow> new_calls s s' = evs"
  by (simp add: new_calls_def)

text \<open>What one \<^verbatim>\<open>removeResource\<close> adds to the calls, and what it changes in the row.\<close>

lemma removeResource_calls:
  assumes "removeResource cl c tgt s = (r, s')"
  shows "\<exists>evs. calls s' = calls s @ evs \<and> only_client c evs
           \<and> (r = Inr True \<longrightarrow> (\<forall>G. c \<in> set (verified_gone G evs)))"
  using assms
  by (auto simp: removeResource_def deleteResource_def enqueue_get_def
        enqueue_beginDeleteMethod_def Let_def
      split: sum.splits if_splits)

lemma removeResource_truthy:
  assumes "removeResource cl c (Single t) s = (r, s')"
    and "truthy_id (r_id (resourceOf t (providerData (worker s))))"
  shows "r \<noteq> Inr True"
  using assms
  by (auto simp: removeResource_def deleteResource_def enqueue_beginDeleteMethod_def
      split: sum.splits)

lemma removeResource_vm_others:
  assumes "removeResource cl c (Single VM) s = (r, s')"
  shows "nic (providerData (worker s')) = nic (providerData (worker s))"
    and "ip (providerData (worker s')) = ip (providerData (worker s))"
  using assms
  by (auto simp: removeResource_def deleteResource_def enqueue_get_def
        enqueue_beginDeleteMethod_def Let_def
      split: sum.splits if_splits)

lemma removeResource_nic_others:
  assumes "removeResource cl c (Single NIC) s = (r, s')"
  shows "ip (providerData (worker s')) = ip (providerData (worker s))"
  using assms
  by (auto simp: removeResource_def deleteResource_def enqueue_get_def
        enqueue_beginDeleteMethod_def Let_def
      split: sum.splits if_splits)

lemma removeDisks_calls:
  "removeDisks cl is b s = (r, s') \<Longrightarrow> \<exists>evs. calls s' = calls s @ evs \<and> only_client Disks evs"
proof (induction "is" arbitrary: b s)
  case Nil
  then show ?case by simp
next
  case (Cons i "is")
  obtain r1 s1 where one: "removeResource cl Disks (DiskAt i) s = (r1, s1)"
    by (cases "removeResource cl Disks (DiskAt i) s")
  from removeResource_calls [OF one]
  obtain e1 where e1: "calls s1 = calls s @ e1" "only_client Disks e1"
    by blast
  show ?case
  proof (cases r1)
    case (Inl e)
    then show ?thesis using Cons.prems one e1 by auto
  next
    case (Inr success)
    then have "removeDisks cl is (b \<and> success) s1 = (r, s')"
      using Cons.prems one by simp
    from Cons.IH [OF this] obtain e2 where "calls s' = calls s1 @ e2" "only_client Disks e2"
      by blast
    then show ?thesis using e1 by auto
  qed
qed


lemma truncate_id [simp]: "r_id (resource.truncate v) = r_id v"
  by (simp add: resource.truncate_def)

lemma removeWorker_try_calls:
  assumes "removeWorker_try ev cl s = (r, s')"
  shows "\<exists>evs. calls s' = calls s @ evs \<and> removal_gated (providerData (worker s)) evs"
proof -
  let ?pd = "providerData (worker s)"
  obtain r1 s1 where one: "removeResource cl VirtualMachines (Single VM) s = (r1, s1)"
    by (cases "removeResource cl VirtualMachines (Single VM) s")
  from removeResource_calls [OF one]
  obtain e1 where e1: "calls s1 = calls s @ e1" "only_client VirtualMachines e1"
      "r1 = Inr True \<Longrightarrow> VirtualMachines \<in> set (verified_gone [] e1)"
    by blast
  have ok1: "removal_order_ok [] e1"
    using only_client_order [OF e1(2)] by simp
  have d1: "set (deleted_clients e1) \<subseteq> {VirtualMachines}"
    by (rule only_client_deleted [OF e1(2)])
  have vm_id: "r1 = Inr True \<Longrightarrow> \<not> truthy_id (r_id (vm ?pd))"
    using removeResource_truthy [OF one] by auto
  have same1: "nic (providerData (worker s1)) = nic ?pd" "ip (providerData (worker s1)) = ip ?pd"
    using removeResource_vm_others [OF one] by simp_all
  show ?thesis
  proof (cases "r1 = Inr True \<and> \<not> truthy_id (r_id (vm (providerData (worker s1))))")
    case False
    then have "s' = s1"
      using assms one by (auto simp: removeWorker_try_def split: sum.splits)
    then show ?thesis
      using e1 ok1 d1 by (auto simp: removal_gated_def)
  next
    case True
    note go1 = True
    obtain r2 s2 where two: "removeResource cl NetworkInterfaces (Single NIC) s1 = (r2, s2)"
      by (cases "removeResource cl NetworkInterfaces (Single NIC) s1")
    from removeResource_calls [OF two]
    obtain e2 where e2: "calls s2 = calls s1 @ e2" "only_client NetworkInterfaces e2"
        "r2 = Inr True \<Longrightarrow> NetworkInterfaces \<in> set (verified_gone (verified_gone [] e1) e2)"
      by blast
    have ok2: "removal_order_ok (verified_gone [] e1) e2"
      using only_client_order [OF e2(2)] e1(3) go1 by simp
    have d2: "set (deleted_clients e2) \<subseteq> {NetworkInterfaces}"
      by (rule only_client_deleted [OF e2(2)])
    have nic_id: "r2 = Inr True \<Longrightarrow> \<not> truthy_id (r_id (nic ?pd))"
      using removeResource_truthy [OF two] same1 by auto
    have same2: "ip (providerData (worker s2)) = ip ?pd"
      using removeResource_nic_others [OF two] same1 by simp
    show ?thesis
    proof (cases "r2 = Inr True \<and> \<not> truthy_id (r_id (nic (providerData (worker s2))))")
      case False
      then have "s' = s2"
        using assms one two go1 by (auto simp: removeWorker_try_def split: sum.splits)
      then show ?thesis
        using e1 e2 ok1 ok2 d1 d2 vm_id go1 by (auto simp: removal_gated_def)
    next
      case True
      note go2 = True
      obtain r3 s3 where three: "removeResource cl PublicIPAddresses (Single IP) s2 = (r3, s3)"
        by (cases "removeResource cl PublicIPAddresses (Single IP) s2")
      from removeResource_calls [OF three]
      obtain e3 where e3: "calls s3 = calls s2 @ e3" "only_client PublicIPAddresses e3"
          "r3 = Inr True \<Longrightarrow>
             PublicIPAddresses \<in> set (verified_gone (verified_gone (verified_gone [] e1) e2) e3)"
        by blast
      have ok3: "removal_order_ok (verified_gone (verified_gone [] e1) e2) e3"
        using only_client_order [OF e3(2)] e2(3) go2 by simp
      have d3: "set (deleted_clients e3) \<subseteq> {PublicIPAddresses}"
        by (rule only_client_deleted [OF e3(2)])
      have ip_id: "r3 = Inr True \<Longrightarrow> \<not> truthy_id (r_id (ip ?pd))"
        using removeResource_truthy [OF three] same2 by auto
      have upto3: "calls s3 = calls s @ (e1 @ e2 @ e3)" "removal_order_ok [] (e1 @ e2 @ e3)"
          "set (deleted_clients (e1 @ e2 @ e3))
             \<subseteq> {VirtualMachines, NetworkInterfaces, PublicIPAddresses}"
          "\<not> truthy_id (r_id (vm ?pd))" "\<not> truthy_id (r_id (nic ?pd))"
        using e1 e2 e3 ok1 ok2 ok3 d1 d2 d3 vm_id nic_id go1 go2 by auto
      show ?thesis
      proof (cases "r3 = Inr True \<and> \<not> truthy_id (r_id (ip (providerData (worker s3))))")
        case False
        then have "s' = s3"
          using assms one two three go1 go2 by (auto simp: removeWorker_try_def split: sum.splits)
        then show ?thesis
          using upto3 by (auto simp: removal_gated_def)
      next
        case True
        note go3 = True
        show ?thesis
        proof (cases "disks (providerData (worker s3))")
          case None
          then have "s' = s3"
            using assms one two three go1 go2 go3 by (auto simp: removeWorker_try_def)
          then show ?thesis
            using upto3 by (auto simp: removal_gated_def)
        next
          case (Some ds)
          obtain r4 s4 where four: "removeDisks cl [0 ..< length ds] True s3 = (r4, s4)"
            by (cases "removeDisks cl [0 ..< length ds] True s3")
          from removeDisks_calls [OF four]
          obtain e4 where e4: "calls s4 = calls s3 @ e4" "only_client Disks e4"
            by blast
          have ok4: "removal_order_ok (verified_gone (verified_gone (verified_gone [] e1) e2) e3) e4"
            using only_client_order [OF e4(2)] e3(3) go3 by simp
          have "calls s' = calls s4"
            using assms one two three four go1 go2 go3 Some
            by (auto simp: removeWorker_try_def split: sum.splits if_splits)
          then show ?thesis
            using upto3 e4 ok4 ok3 ip_id go3 by (auto simp: removal_gated_def)
        qed
      qed
    qed
  qed
qed

text \<open>
  Claim C5. In every invocation of \<^verbatim>\<open>removeWorker\<close>, from any row and after any
  earlier invocations, with any answers of the cloud: a delete of the NIC is issued only
  after a GET of the VM in this invocation was answered with 404, a delete of the IP only
  after such a GET of the NIC, a delete of a disk only after such a GET of the IP; and
  while \<^verbatim>\<open>vm.id\<close> is set nothing but the VM is deleted, while \<^verbatim>\<open>nic.id\<close> is set
  neither the IP nor a disk, while \<^verbatim>\<open>ip.id\<close> is set no disk.
\<close>

theorem C5_removal_order:
  "removal_order_ok [] (new_calls s (snd (removeWorker ev cl why s)))
   \<and> (truthy_id (r_id (vm (providerData (worker s)))) \<longrightarrow>
        set (deleted_clients (new_calls s (snd (removeWorker ev cl why s)))) \<subseteq> {VirtualMachines})
   \<and> (truthy_id (r_id (nic (providerData (worker s)))) \<longrightarrow>
        set (deleted_clients (new_calls s (snd (removeWorker ev cl why s))))
          \<subseteq> {VirtualMachines, NetworkInterfaces})
   \<and> (truthy_id (r_id (ip (providerData (worker s)))) \<longrightarrow>
        Disks \<notin> set (deleted_clients (new_calls s (snd (removeWorker ev cl why s)))))"
proof (cases "state (worker s) = STOPPED")
  case True
  then show ?thesis
    by (simp add: removeWorker_def Let_def new_calls_def)
next
  case False
  let ?s = "s\<lparr>monitor := monitor s @ [WorkerRemoved why]\<rparr>"
  obtain r s' where t: "removeWorker_try ev cl ?s = (r, s')"
    by (cases "removeWorker_try ev cl ?s")
  from removeWorker_try_calls [OF t]
  obtain evs where evs: "calls s' = calls s @ evs" "removal_gated (providerData (worker s)) evs"
    by auto
  have "new_calls s (snd (removeWorker ev cl why s)) = evs"
    using False t evs(1) by (cases r) (simp_all add: removeWorker_def Let_def new_calls_def)
  then show ?thesis
    using evs(2) by (simp add: removal_gated_def)
qed

theorem C5_removal_order_witness:
  "truthy_id (r_id (vm (providerData (worker (fresh_state provisioned_worker)))))
   \<and> truthy_id (r_id (nic (providerData (worker (fresh_state provisioned_worker)))))
   \<and> truthy_id (r_id (ip (providerData (worker (fresh_state provisioned_worker)))))
   \<and> removal_order_ok []
        (new_calls (fresh_state provisioned_worker)
           (snd (removeWorker ex_env cloud_healthy ContinuingRemoval (fresh_state provisioned_worker))))
   \<and> set (deleted_clients (new_calls (fresh_state provisioned_worker)
           (snd (removeWorker ex_env cloud_healthy ContinuingRemoval (fresh_state provisioned_worker)))))
        \<subseteq> {VirtualMachines}"
proof -
  have v: "truthy_id (r_id (vm (providerData (worker (fresh_state provisioned_worker)))))"
    by code_simp
  have n: "truthy_id (r_id (nic (providerData (worker (fresh_state provisioned_worker)))))"
    by code_simp
  have i: "truthy_id (r_id (ip (providerData (worker (fresh_state provisioned_worker)))))"
    by code_simp
  note r = C5_removal_order [of "fresh_state provisioned_worker" ex_env cloud_healthy ContinuingRemoval]
  show ?thesis
    using v n i r by (intro conjI) (rule v n i conjunct1 [OF r] | blast)+
qed

subsection \<open>What a pass of the scanner leaves alone\<close>

lemma scan_frameD:
  assumes "scan_frame P"
  shows "removal_frame P"
    and "P (s\<lparr>monitor := m\<rparr>) = P s"
    and "P (s\<lparr>seen := n\<rparr>) = P s"
    and "P (s\<lparr>reported := r\<rparr>) = P s"
    and "P (update (\<lambda>w. w\<lparr>expires := t\<rparr>) s) = P s"
    and "P (update (pd_update (\<lambda>pd. pd\<lparr>vm := (vm pd)\<lparr>vmId := v\<rparr>\<rparr>)) s) = P s"
  using assms by (simp_all add: scan_frame_def)

lemma scan_frame_calls:
  assumes "scan_frame P"
  shows "creates evs = [] \<Longrightarrow> P (s\<lparr>calls := calls s @ evs\<rparr>) = P s"
    "P (s\<lparr>errors := es\<rparr>) = P s"
    "P (update (pd_update (modify_resource tgt fo fi)) s) = P s"
    "P (update (\<lambda>w. w\<lparr>lastModified := lm w, lastChecked := lc, state := st\<rparr>) s) = P s"
  using removal_frameD [OF scan_frameD(1) [OF assms]] by simp_all

lemma removeWorker_scan_frame:
  assumes "scan_frame P"
  shows "P (snd (removeWorker ev cl why s)) = P s"
  using removeWorker_frame [OF scan_frameD(1) [OF assms]] scan_frameD(2) [OF assms] by simp

lemma fetchVmInfo_frame:
  assumes "scan_frame P"
  shows "P (snd (fetchVmInfo cl s)) = P s"
  by (auto simp: fetchVmInfo_def enqueue_get_def Let_def scan_frameD [OF assms]
        scan_frame_calls [OF assms] split: sum.splits)

lemma reportError_frame:
  assumes "scan_frame P"
  shows "P (reportError ev e s) = P s"
  by (simp add: reportError_def scan_frameD [OF assms])

lemma checkWorker_try_frame:
  assumes "scan_frame P"
  shows "P (snd (checkWorker_try ev cl st s)) = P s"
proof -
  obtain r1 s1 where f: "fetchVmInfo cl s = (r1, s1)"
    by (cases "fetchVmInfo cl s")
  have s1: "P s1 = P s"
    using fetchVmInfo_frame [OF assms, of cl s] f by simp
  show ?thesis
  proof (cases r1)
    case (Inl e)
    then show ?thesis using f s1 by (simp add: checkWorker_try_def)
  next
    case (Inr pv)
    obtain provState fetched where pv: "pv = (provState, fetched)" by (cases pv)
    obtain r2 s2 where v: "enqueue_instanceView cl (resourceGroupName (providerData (worker s1)))
             (r_name (vm (providerData (worker s1)))) s1 = (r2, s2)"
      by (cases "enqueue_instanceView cl (resourceGroupName (providerData (worker s1)))
             (r_name (vm (providerData (worker s1)))) s1")
    have s2: "P s2 = P s"
      using v s1 by (auto simp: enqueue_instanceView_def scan_frame_calls [OF assms])
    show ?thesis
    proof (cases r2)
      case (Inl e)
      then show ?thesis using f Inr pv v s2 by (simp add: checkWorker_try_def)
    next
      case (Inr powerStates)
      show ?thesis
        using f \<open>r1 = Inr pv\<close> pv v Inr s2
        by (simp add: checkWorker_try_def Let_def split_beta removeWorker_scan_frame [OF assms]
              reportError_frame [OF assms] scan_frameD [OF assms]
              split: option.splits)
    qed
  qed
qed


lemma migrateDisk_simps [simp]:
  "calls (migrateDisk s) = calls s"
  "errors (migrateDisk s) = errors s"
  "seen (migrateDisk s) = seen s"
  "reported (migrateDisk s) = reported s"
  "monitor (migrateDisk s) = monitor s"
  "state (worker (migrateDisk s)) = state (worker s)"
  "lastModified (worker (migrateDisk s)) = lastModified (worker s)"
  "lastChecked (worker (migrateDisk s)) = lastChecked (worker s)"
  "expires (worker (migrateDisk s)) = expires (worker s)"
  "capacity (worker (migrateDisk s)) = capacity (worker s)"
  "tags (providerData (worker (migrateDisk s))) = tags (providerData (worker s))"
  "resourceGroupName (providerData (worker (migrateDisk s)))
     = resourceGroupName (providerData (worker s))"
  "vm (providerData (worker (migrateDisk s))) = vm (providerData (worker s))"
  "ip (providerData (worker (migrateDisk s))) = ip (providerData (worker s))"
  "nic (providerData (worker (migrateDisk s))) = nic (providerData (worker s))"
  "disk (providerData (worker (migrateDisk s))) = disk (providerData (worker s))"
  "terminateAfter (providerData (worker (migrateDisk s))) = terminateAfter (providerData (worker s))"
  by (simp_all add: migrateDisk_def split: option.splits)

lemma setState_frame:
  assumes "scan_frame P"
  shows "P (setState ev r) = P (snd r)"
  by (simp add: setState_def scan_frame_calls [OF assms])

lemma checkWorker_frame:
  assumes "scan_frame P" and "state (worker s) \<noteq> REQUESTED"
  shows "P (snd (checkWorker ev cl s)) = P (migrateDisk s)"
proof -
  define s0 where "s0 = migrateDisk s"
  have st: "state (worker s0) = state (worker s)"
    by (simp add: s0_def)
  obtain r1 s1 where t: "checkWorker_try ev cl (state (worker s)) s0 = (r1, s1)"
    by (cases "checkWorker_try ev cl (state (worker s)) s0")
  have s1: "P s1 = P s0"
    using checkWorker_try_frame [OF assms(1), of ev cl "state (worker s)" s0] t by simp
  have "P (snd (checkWorker ev cl s)) = P s0"
    using t s1 st assms(2)
    by (cases r1)
       (simp_all add: checkWorker_def Let_def s0_def [symmetric] setState_frame [OF assms(1)]
          removeWorker_scan_frame [OF assms(1)])
  then show ?thesis by (simp add: s0_def)
qed

lemma scan_frame_disk_names:
  "scan_frame (\<lambda>s. map_option (map r_name) (disks (providerData (worker s))))"
  by (simp add: scan_frame_def removal_frame_def)

subsection \<open>What the provisioning of resources leaves alone\<close>

lemma creates_append [simp]: "creates (xs @ ys) = creates xs @ creates ys"
  by (induction xs rule: creates.induct) simp_all

lemma scan_frame_creates: "scan_frame (\<lambda>s. creates (calls s))"
  by (simp add: scan_frame_def removal_frame_def)

lemma scan_frame_tags: "scan_frame (\<lambda>s. tags (providerData (worker s)))"
  by (simp add: scan_frame_def removal_frame_def)

lemma pipeline_frame_tags: "pipeline_frame (\<lambda>s. tags (providerData (worker s)))"
  by (simp add: pipeline_frame_def scan_frame_tags nicModifyFunc_def vmModifyFunc_def)

lemma pipeline_frameD:
  assumes "pipeline_frame P"
  shows "scan_frame P"
    and "list_all (\<lambda>x. req_tags (snd (snd x)) = tags (providerData (worker s))) (creates evs)
         \<Longrightarrow> P (s\<lparr>calls := calls s @ evs\<rparr>) = P s"
    and "P (update (\<lambda>w. nicModifyFunc res (g w)) s) = P (update g s)"
    and "P (update (\<lambda>w. vmModifyFunc res (g w)) s) = P (update g s)"
  using assms by (simp_all add: pipeline_frame_def)

lemma handleOperation_frame:
  assumes "scan_frame P"
  shows "P (snd (handleOperation cl op s)) = P s"
  by (auto simp: handleOperation_def enqueue_opRead_def scan_frame_calls [OF assms]
      split: sum.splits option.splits prod.splits)

lemma provisionResource_frame:
  assumes "pipeline_frame P"
    and mf: "\<And>res g s. P (update (\<lambda>w. mf res (g w)) s) = P (update g s)"
  shows "P (snd (provisionResource ev cl c t rc mf s)) = P s"
proof -
  note sf = pipeline_frameD(1) [OF assms(1)]
  note frames = scan_frame_calls [OF sf] pipeline_frameD(2) [OF assms(1)] mf
     removeWorker_scan_frame [OF sf] handleOperation_frame [OF sf]
  show ?thesis
    by (auto simp: provisionResource_def createResource_def enqueue_get_def
          enqueue_beginCreateOrUpdate_def Let_def split_beta frames
        split: sum.splits bool.splits)
qed


lemma provisionResources_try_frame:
  assumes "pipeline_frame P"
  shows "P (snd (provisionResources_try ev cl s)) = P s"
proof -
  have id: "\<And>res g s. P (update (\<lambda>w. (\<lambda>res w. w) res (g w)) s) = P (update g s)"
    by simp
  note pr = provisionResource_frame [OF assms]
  have step: "\<And>c t rc mf s r s'.
      (\<And>res g s. P (update (\<lambda>w. mf res (g w)) s) = P (update g s)) \<Longrightarrow>
      provisionResource ev cl c t rc mf s = (r, s') \<Longrightarrow> P s' = P s"
    using pr by (metis snd_conv)
  note nicf = pipeline_frameD(3) [OF assms] and vmf = pipeline_frameD(4) [OF assms]
  show ?thesis
    unfolding provisionResources_try_def
    by (auto split: prod.splits sum.splits dest!: step [OF id] step [OF nicf] step [OF vmf])
qed

lemma provisionResources_frame:
  assumes "pipeline_frame P"
  shows "P (snd (provisionResources ev cl s)) = P s"
proof -
  note sf = pipeline_frameD(1) [OF assms]
  obtain r s1 where t: "provisionResources_try ev cl s = (r, s1)"
    by (cases "provisionResources_try ev cl s")
  have "P s1 = P s"
    using provisionResources_try_frame [OF assms, of ev cl s] t by simp
  then show ?thesis
    using t
    by (cases r)
       (simp_all add: provisionResources_def removeWorker_scan_frame [OF sf]
          reportError_frame [OF sf])
qed

lemma checkWorker_pipeline_frame:
  assumes "pipeline_frame P"
  shows "P (snd (checkWorker ev cl s)) = P (migrateDisk s)"
proof (cases "state (worker s) = REQUESTED")
  case False
  then show ?thesis
    by (rule checkWorker_frame [OF pipeline_frameD(1) [OF assms]])
next
  case True
  note sf = pipeline_frameD(1) [OF assms]
  define s0 where "s0 = migrateDisk s"
  have st: "state (worker s0) = REQUESTED"
    using True by (simp add: s0_def)
  obtain r1 s1 where t: "checkWorker_try ev cl REQUESTED s0 = (r1, s1)"
    by (cases "checkWorker_try ev cl REQUESTED s0")
  have s1: "P s1 = P s0"
    using checkWorker_try_frame [OF sf, of ev cl REQUESTED s0] t by simp
  have "P (snd (checkWorker ev cl s)) = P s0"
    using t s1 st
    by (cases r1)
       (simp_all add: checkWorker_def Let_def s0_def [symmetric] setState_frame [OF sf]
          provisionResources_frame [OF assms])
  then show ?thesis by (simp add: s0_def)
qed

lemma workerVmId_frame:
  assumes "scan_frame P"
  shows "P (snd (workerVmId cl s)) = P s"
  using fetchVmInfo_frame [OF assms, of cl s]
  by (simp add: workerVmId_def split_beta split: sum.splits)

subsection \<open>Tags\<close>

lemma pipeline_frame_tag_inv: "pipeline_frame (tag_inv T)"
  by (auto simp: pipeline_frame_def scan_frame_def removal_frame_def tag_inv_def
        nicModifyFunc_def vmModifyFunc_def list_all_iff)

lemma registration_error_tag_inv:
  "tag_inv T (snd (registration_error msg s)) = tag_inv T s"
  by (simp add: registration_error_def tag_inv_def)

lemma registerWorker_tag_inv:
  "tag_inv T (snd (registerWorker ev cr cl document s)) = tag_inv T s"
proof (cases "decode_document cr document")
  case (Inl msg)
  then show ?thesis
    by (simp add: registerWorker_def registration_error_tag_inv)
next
  case (Inr pl)
  note sf = pipeline_frameD(1) [OF pipeline_frame_tag_inv]
  obtain r1 s1 where f: "workerVmId cl s = (r1, s1)"
    by (cases "workerVmId cl s")
  have s1: "tag_inv T s1 = tag_inv T s"
    using workerVmId_frame [OF sf, of T cl s] f by simp
  have u: "\<And>e t m. tag_inv T (update (\<lambda>w. pd_update (\<lambda>pd. pd\<lparr>terminateAfter := Some e\<rparr>)
                               (w\<lparr>lastModified := t, state := RUNNING\<rparr>)) (s1\<lparr>monitor := m\<rparr>))
               = tag_inv T s1"
    by (simp add: tag_inv_def)
  show ?thesis
    using s1 Inr f
    by (cases r1; cases pl)
       (simp_all add: registerWorker_def Let_def registration_error_tag_inv u
          split: option.splits)
qed

lemma perform_tag_inv: "tag_inv T (perform cr cl ev op s) = tag_inv T s"
proof (cases op)
  case CheckWorker
  have "tag_inv T (migrateDisk s) = tag_inv T s"
    by (simp add: tag_inv_def)
  with checkWorker_pipeline_frame [OF pipeline_frame_tag_inv, of T ev cl s]
  have "tag_inv T (snd (checkWorker ev cl s)) = tag_inv T s"
    by (rule trans)
  then show ?thesis
    unfolding CheckWorker perform.simps .
next
  case ProvisionResources
  then show ?thesis
    by (simp add: provisionResources_frame [OF pipeline_frame_tag_inv])
next
  case (RemoveWorker why)
  then show ?thesis
    by (simp add: removeWorker_scan_frame [OF pipeline_frameD(1) [OF pipeline_frame_tag_inv]])
next
  case (RegisterWorker document)
  then show ?thesis
    by (simp add: registerWorker_tag_inv)
qed

lemma run_tag_inv: "tag_inv T (run cr cl ops s) = tag_inv T s"
proof (induction ops arbitrary: s)
  case Nil
  show ?case by simp
next
  case (Cons a ops)
  obtain ev op where a: "a = (ev, op)" by (cases a)
  show ?case
    unfolding a run.simps Cons.IH perform_tag_inv ..
qed

lemma map_of_provider_tags:
  "map_of (provider_tags pr wp wg userTags) =
     (map_of (case userTags of None \<Rightarrow> [] | Some t \<Rightarrow> t)) ++ map_of (reserved_tags pr wp wg)"
  by (rule ext) (simp add: provider_tags_def reserved_tags_def update_conv' map_add_def)

text \<open>
  Claim C7. For every launch configuration, take the row \<^verbatim>\<open>provision\<close> makes for it
  and any sequence of operations on it, with any answers of the cloud. In the tags of
  every \<^verbatim>\<open>beginCreateOrUpdate\<close> request made, each reserved key (created-by,
  managed-by, provider-id, worker-group, worker-pool-id, root-url, owner) has the value
  the provider computes, whatever the user's \<^verbatim>\<open>cfg.tags\<close> gave it, and every other key
  has what \<^verbatim>\<open>cfg.tags\<close> gave it.
\<close>

theorem C7_reserved_tags_win:
  assumes "provision_worker ev0 pr wp lf cfg = Inr w"
    and "(c, n, req) \<in> set (creates (calls (run cr cl ops (fresh_state w))))"
  shows "(\<forall>k v. (k, v) \<in> set (reserved_tags pr wp (lc_location cfg)) \<longrightarrow>
            map_of (req_tags req) k = Some v)
       \<and> (\<forall>k. k \<notin> fst ` set (reserved_tags pr wp (lc_location cfg)) \<longrightarrow>
            map_of (req_tags req) k = map_of (case lc_tags cfg of None \<Rightarrow> [] | Some t \<Rightarrow> t) k)"
proof -
  let ?T = "provider_tags pr wp (lc_location cfg) (lc_tags cfg)"
  have "tags (providerData w) = ?T"
    using assms(1) by (auto simp: provision_worker_def Let_def split: if_splits)
  then have "tag_inv ?T (fresh_state w)"
    by (simp add: tag_inv_def fresh_state_def)
  then have "tag_inv ?T (run cr cl ops (fresh_state w))"
    by (simp add: run_tag_inv)
  then have "req_tags req = ?T"
    using assms(2) by (auto simp: tag_inv_def list_all_iff)
  then show ?thesis
    by (auto simp: map_of_provider_tags map_add_def reserved_tags_def split: option.splits)
qed

theorem C7_reserved_tags_win_witness:
  "provision_worker ex_env ex_provider ex_pool
      \<lparr>lf_terminateAfter = Some 345601000, lf_reregistrationTimeout = Some 345600000\<rparr>
      ex_launchConfig = Inr ex_provisioned
   \<and> creates (calls (run ex_crypto cloud_absent [(ex_env, ProvisionResources)]
        (fresh_state ex_provisioned))) \<noteq> []
   \<and> map_of (req_tags (snd (snd (hd (creates (calls (run ex_crypto cloud_absent
        [(ex_env, ProvisionResources)] (fresh_state ex_provisioned)))))))) ''created-by''
       = Some ''taskcluster-wm-azure''
   \<and> map_of (req_tags (snd (snd (hd (creates (calls (run ex_crypto cloud_absent
        [(ex_env, ProvisionResources)] (fresh_state ex_provisioned)))))))) ''mytag''
       = Some ''myvalue''"
proof -
  let ?cs = "creates (calls (run ex_crypto cloud_absent [(ex_env, ProvisionResources)]
        (fresh_state ex_provisioned)))"
  have p: "provision_worker ex_env ex_provider ex_pool
      \<lparr>lf_terminateAfter = Some 345601000, lf_reregistrationTimeout = Some 345600000\<rparr>
      ex_launchConfig = Inr ex_provisioned"
    by code_simp
  have ne: "?cs \<noteq> []"
    by code_simp
  then have "(fst (hd ?cs), fst (snd (hd ?cs)), snd (snd (hd ?cs))) \<in> set ?cs"
    by simp
  note r = C7_reserved_tags_win [OF p this]
  have "(''created-by'', ''taskcluster-wm-azure'')
          \<in> set (reserved_tags ex_provider ex_pool (lc_location ex_launchConfig))"
    by (simp add: reserved_tags_def ex_provider_def)
  with r have a: "map_of (req_tags (snd (snd (hd ?cs)))) ''created-by'' = Some ''taskcluster-wm-azure''"
    by blast
  have "''mytag'' \<notin> fst ` set (reserved_tags ex_provider ex_pool (lc_location ex_launchConfig))"
    by (simp add: reserved_tags_def)
  with r have "map_of (req_tags (snd (snd (hd ?cs)))) ''mytag''
      = map_of (case lc_tags ex_launchConfig of None \<Rightarrow> [] | Some t \<Rightarrow> t) ''mytag''"
    by blast
  then have b: "map_of (req_tags (snd (snd (hd ?cs)))) ''mytag'' = Some ''myvalue''"
    by (simp add: ex_launchConfig_def)
  show ?thesis
    using p ne a b by (intro conjI)
qed

subsection \<open>The rows written\<close>

lemma removeResource_written:
  "removeResource cl c tgt s = (r, s') \<Longrightarrow> \<exists>ws. written s' = written s @ ws"
  by (auto simp: removeResource_def deleteResource_def enqueue_get_def
        enqueue_beginDeleteMethod_def Let_def
      split: sum.splits if_splits)

lemma removeDisks_written:
  "removeDisks cl is b s = (r, s') \<Longrightarrow> \<exists>ws. written s' = written s @ ws"
proof (induction "is" arbitrary: b s)
  case Nil
  then show ?case by simp
next
  case (Cons i "is")
  obtain r1 s1 where one: "removeResource cl Disks (DiskAt i) s = (r1, s1)"
    by (cases "removeResource cl Disks (DiskAt i) s")
  from removeResource_written [OF one] obtain w1 where w1: "written s1 = written s @ w1"
    by blast
  show ?case
  proof (cases r1)
    case (Inl e)
    then show ?thesis using Cons.prems one w1 by auto
  next
    case (Inr success)
    then have "removeDisks cl is (b \<and> success) s1 = (r, s')"
      using Cons.prems one by simp
    from Cons.IH [OF this] obtain w2 where "written s' = written s1 @ w2"
      by blast
    then show ?thesis using w1 by auto
  qed
qed

lemma removeWorker_try_written:
  "removeWorker_try ev cl s = (r, s') \<Longrightarrow> \<exists>ws. written s' = written s @ ws"
  unfolding removeWorker_try_def
  by (auto split: prod.splits sum.splits option.splits if_splits
        dest!: removeResource_written removeDisks_written)

lemma removeWorker_written:
  "\<exists>ws. written (snd (removeWorker ev cl why s)) = written s @ ws"
proof -
  let ?s = "s\<lparr>monitor := monitor s @ [WorkerRemoved why]\<rparr>"
  obtain r s' where t: "removeWorker_try ev cl ?s = (r, s')"
    by (cases "removeWorker_try ev cl ?s")
  from removeWorker_try_written [OF t] obtain ws where "written s' = written s @ ws"
    by auto
  then show ?thesis
    using t by (cases r) (auto simp: removeWorker_def Let_def)
qed

lemma handleOperation_written [simp]:
  "written (snd (handleOperation cl op s)) = written s"
  by (auto simp: handleOperation_def enqueue_opRead_def
      split: sum.splits option.splits prod.splits)

lemma provisionResource_written:
  "\<exists>ws. written (snd (provisionResource ev cl c t rc mf s)) = written s @ ws"
proof -
  have rw: "\<exists>ws. written (snd (removeWorker ev cl why s1)) = written s @ ws"
    if "\<exists>ws. written s1 = written s @ ws" for why s1
    using that removeWorker_written [of ev cl why s1] by auto
  have h: "written s2 = written s1" if "handleOperation cl op s1 = (b, s2)" for op s1 b s2
    using handleOperation_written [of cl op s1] that by simp
  show ?thesis
    by (auto simp: provisionResource_def createResource_def enqueue_get_def
          enqueue_beginCreateOrUpdate_def Let_def
        split: sum.splits bool.splits prod.splits
        intro!: rw dest!: h)
qed


lemma provisionResources_try_written:
  "\<exists>ws. written (snd (provisionResources_try ev cl s)) = written s @ ws"
proof -
  have step: "\<And>c t rc mf s r s'.
      provisionResource ev cl c t rc mf s = (r, s') \<Longrightarrow> \<exists>ws. written s' = written s @ ws"
    using provisionResource_written by (metis snd_conv)
  show ?thesis
    unfolding provisionResources_try_def
    by (auto split: prod.splits sum.splits dest!: step)
qed

lemma provisionResources_written:
  "\<exists>ws. written (snd (provisionResources ev cl s)) = written s @ ws"
proof -
  obtain r s1 where t: "provisionResources_try ev cl s = (r, s1)"
    by (cases "provisionResources_try ev cl s")
  from provisionResources_try_written [of ev cl s] t obtain w1 where w1: "written s1 = written s @ w1"
    by auto
  show ?thesis
  proof (cases r)
    case (Inr st)
    then show ?thesis using t w1 by (simp add: provisionResources_def)
  next
    case (Inl e)
    let ?s2 = "reportError ev \<lparr>kind = ''creation-error'', title = ''VM Creation Error'',
                             description = message e\<rparr> s1"
    have "written ?s2 = written s1"
      by (simp add: reportError_def)
    with removeWorker_written [of ev cl "VMCreationError (message e)" ?s2] w1
    show ?thesis
      using t Inl by (auto simp: provisionResources_def)
  qed
qed

lemma fetchVmInfo_written:
  "\<exists>ws. written (snd (fetchVmInfo cl s)) = written s @ ws"
  by (auto simp: fetchVmInfo_def enqueue_get_def Let_def split: sum.splits)

lemma checkWorker_try_written:
  "\<exists>ws. written (snd (checkWorker_try ev cl st s)) = written s @ ws"
proof -
  obtain r1 s1 where f: "fetchVmInfo cl s = (r1, s1)"
    by (cases "fetchVmInfo cl s")
  from fetchVmInfo_written [of cl s] f obtain w1 where w1: "written s1 = written s @ w1"
    by auto
  have rw: "\<exists>ws. written (snd (removeWorker ev cl why s')) = written s @ ws"
    if "\<exists>ws. written s' = written s @ ws" for why s'
    using that removeWorker_written [of ev cl why s'] by auto
  show ?thesis
  proof (cases r1)
    case (Inl e)
    then show ?thesis using f w1 by (simp add: checkWorker_try_def)
  next
    case (Inr pv)
    obtain provState fetched where pv: "pv = (provState, fetched)" by (cases pv)
    show ?thesis
      using f Inr pv w1
      by (auto simp: checkWorker_try_def enqueue_instanceView_def Let_def split_beta
            reportError_def
          split: sum.splits option.splits intro!: rw)
  qed
qed

lemma checkWorker_written:
  "\<exists>ws. written (snd (checkWorker ev cl s)) = written (migrateDisk s) @ ws"
proof -
  let ?s0 = "migrateDisk s"
  obtain r1 s1 where t: "checkWorker_try ev cl (state (worker ?s0)) ?s0 = (r1, s1)"
    by (cases "checkWorker_try ev cl (state (worker ?s0)) ?s0")
  from checkWorker_try_written [of ev cl "state (worker ?s0)" ?s0] t
  obtain w1 where w1: "written s1 = written ?s0 @ w1"
    by auto
  have rw: "\<exists>ws. written (snd (removeWorker ev cl why s1)) = written ?s0 @ ws" for why
    using w1 removeWorker_written [of ev cl why s1] by auto
  have pw: "\<exists>ws. written (snd (provisionResources ev cl s1)) = written ?s0 @ ws"
    using w1 provisionResources_written [of ev cl s1] by auto
  have fin: "\<exists>ws. written (setState ev r) = written ?s0 @ ws"
    if "\<exists>ws. written (snd r) = written ?s0 @ ws" for r
    using that by (auto simp: setState_def)
  show ?thesis
    using t w1
    by (cases r1) (auto simp: checkWorker_def Let_def intro!: fin rw pw)
qed

lemma pipeline_frame_disk: "pipeline_frame (\<lambda>s. disk (providerData (worker s)))"
  by (simp add: pipeline_frame_def scan_frame_def removal_frame_def nicModifyFunc_def
        vmModifyFunc_def)

subsection \<open>The scanner\<close>

lemma fetchVmInfo_found:
  assumes "c_get cl (length (calls s)) VirtualMachines (resourceGroupName (providerData (worker s)))
             (r_name (vm (providerData (worker s)))) = Inr res"
  shows "fst (fetchVmInfo cl s) = Inr (provisioningState res, cr_vmId res)"
    and "calls (snd (fetchVmInfo cl s))
          = calls s @ [Get VirtualMachines (resourceGroupName (providerData (worker s)))
                         (r_name (vm (providerData (worker s)))) (Inr res)]"
    and "resourceGroupName (providerData (worker (snd (fetchVmInfo cl s))))
          = resourceGroupName (providerData (worker s))"
    and "r_name (vm (providerData (worker (snd (fetchVmInfo cl s)))))
          = r_name (vm (providerData (worker s)))"
    and "monitor (snd (fetchVmInfo cl s)) = monitor s"
    and "state (worker (snd (fetchVmInfo cl s))) = state (worker s)"
    and "terminateAfter (providerData (worker (snd (fetchVmInfo cl s))))
          = terminateAfter (providerData (worker s))"
    and "disks (providerData (worker (snd (fetchVmInfo cl s)))) = disks (providerData (worker s))"
  using assms by (simp_all add: fetchVmInfo_def enqueue_get_def Let_def)

lemma checkWorker_try_observed:
  assumes "c_get cl (length (calls s)) VirtualMachines (resourceGroupName (providerData (worker s)))
             (r_name (vm (providerData (worker s)))) = Inr res"
    and "c_instanceView cl (Suc (length (calls s))) (resourceGroupName (providerData (worker s)))
             (r_name (vm (providerData (worker s)))) = Inr powerStates"
    and "s2 = snd (enqueue_instanceView cl (resourceGroupName (providerData (worker s)))
                    (r_name (vm (providerData (worker s)))) (snd (fetchVmInfo cl s)))"
    and "s4 = (let s3 = s2\<lparr>seen := seen s2 + (if capacity (worker s2) = 0 then 1
                                               else capacity (worker s2))\<rparr>
              in if expires (worker s3) < now ev + day
                 then update (\<lambda>w. w\<lparr>expires := now ev + 7 * day\<rparr>) s3 else s3)"
  shows "checkWorker_try ev cl st s =
     (if successProvisioningStates (provisioningState res) \<and> list_ex successPowerStates powerStates
      then (case terminateAfter (providerData (worker s4)) of
              None \<Rightarrow> (Inr st, s4)
            | Some t \<Rightarrow>
                if t \<noteq> 0 \<and> t < now ev then
                  (Inr (fst (removeWorker ev cl TerminateAfterExceeded s4)),
                   snd (removeWorker ev cl TerminateAfterExceeded s4))
                else (Inr st, s4))
      else if failProvisioningStates (provisioningState res) \<or> list_ex failPowerStates powerStates
      then (Inr (fst (removeWorker ev cl (FailedState (provisioningState res) powerStates) s2)),
            snd (removeWorker ev cl (FailedState (provisioningState res) powerStates) s2))
      else (Inr st,
            reportError ev \<lparr>kind = ''creation-error'',
                        title = ''Encountered unknown VM provisioningState or powerStates'',
                        description = ''Unknown provisioningState or powerStates''\<rparr> s2))"
proof -
  obtain r1 s1 where f: "fetchVmInfo cl s = (r1, s1)"
    by (cases "fetchVmInfo cl s")
  have r1: "r1 = Inr (provisioningState res, cr_vmId res)"
    and s1: "length (calls s1) = Suc (length (calls s))"
      "resourceGroupName (providerData (worker s1)) = resourceGroupName (providerData (worker s))"
      "r_name (vm (providerData (worker s1))) = r_name (vm (providerData (worker s)))"
    using fetchVmInfo_found [OF assms(1)] f by simp_all
  have v: "enqueue_instanceView cl (resourceGroupName (providerData (worker s1)))
             (r_name (vm (providerData (worker s1)))) s1 = (Inr powerStates, s2)"
    using assms(2,3) s1 f by (simp add: enqueue_instanceView_def)
  show ?thesis
    unfolding checkWorker_try_def f r1
    by (simp add: v assms(4) Let_def split_beta split: option.splits)
qed


lemma checkWorker_observed:
  assumes "c_get cl (length (calls s)) VirtualMachines (resourceGroupName (providerData (worker s)))
             (r_name (vm (providerData (worker s)))) = Inr res"
    and "c_instanceView cl (Suc (length (calls s))) (resourceGroupName (providerData (worker s)))
             (r_name (vm (providerData (worker s)))) = Inr powerStates"
    and "s2 = snd (enqueue_instanceView cl (resourceGroupName (providerData (worker s)))
                    (r_name (vm (providerData (worker s)))) (snd (fetchVmInfo cl (migrateDisk s))))"
    and "s4 = (let s3 = s2\<lparr>seen := seen s2 + (if capacity (worker s2) = 0 then 1
                                               else capacity (worker s2))\<rparr>
              in if expires (worker s3) < now ev + day
                 then update (\<lambda>w. w\<lparr>expires := now ev + 7 * day\<rparr>) s3 else s3)"
  shows "checkWorker ev cl s =
     (Inr (), setState ev
       (if successProvisioningStates (provisioningState res) \<and> list_ex successPowerStates powerStates
        then (if (case terminateAfter (providerData (worker s)) of
                    None \<Rightarrow> False | Some t \<Rightarrow> t \<noteq> 0 \<and> t < now ev)
              then removeWorker ev cl TerminateAfterExceeded s4
              else (state (worker s), s4))
        else if failProvisioningStates (provisioningState res) \<or> list_ex failPowerStates powerStates
        then removeWorker ev cl (FailedState (provisioningState res) powerStates) s2
        else (state (worker s),
              reportError ev \<lparr>kind = ''creation-error'',
                        title = ''Encountered unknown VM provisioningState or powerStates'',
                        description = ''Unknown provisioningState or powerStates''\<rparr> s2)))"
    and "calls s2 = calls s @ [Get VirtualMachines (resourceGroupName (providerData (worker s)))
                                  (r_name (vm (providerData (worker s)))) (Inr res),
                               InstanceView (resourceGroupName (providerData (worker s)))
                                  (r_name (vm (providerData (worker s))))]"
    and "calls s4 = calls s2" and "monitor s2 = monitor s" and "monitor s4 = monitor s"
    and "state (worker s2) = state (worker s)" and "state (worker s4) = state (worker s)"
    and "disks (providerData (worker s2)) = disks (providerData (worker (migrateDisk s)))"
    and "disks (providerData (worker s4)) = disks (providerData (worker (migrateDisk s)))"
proof -
  let ?s0 = "migrateDisk s"
  have g: "c_get cl (length (calls ?s0)) VirtualMachines (resourceGroupName (providerData (worker ?s0)))
             (r_name (vm (providerData (worker ?s0)))) = Inr res"
    using assms(1) by simp
  have v: "c_instanceView cl (Suc (length (calls ?s0))) (resourceGroupName (providerData (worker ?s0)))
             (r_name (vm (providerData (worker ?s0)))) = Inr powerStates"
    using assms(2) by simp
  have s2: "s2 = snd (enqueue_instanceView cl (resourceGroupName (providerData (worker ?s0)))
                    (r_name (vm (providerData (worker ?s0)))) (snd (fetchVmInfo cl ?s0)))"
    using assms(3) by simp
  note f = fetchVmInfo_found [OF g]
  show c2: "calls s2 = calls s @ [Get VirtualMachines (resourceGroupName (providerData (worker s)))
                                  (r_name (vm (providerData (worker s)))) (Inr res),
                               InstanceView (resourceGroupName (providerData (worker s)))
                                  (r_name (vm (providerData (worker s))))]"
    using f(2) by (simp add: assms(3) enqueue_instanceView_def)
  show m2: "monitor s2 = monitor s"
    using f(5) by (simp add: assms(3) enqueue_instanceView_def)
  show st2: "state (worker s2) = state (worker s)"
    using f(6) by (simp add: assms(3) enqueue_instanceView_def)
  have ta2: "terminateAfter (providerData (worker s2)) = terminateAfter (providerData (worker s))"
    using f(7) by (simp add: assms(3) enqueue_instanceView_def)
  show "calls s4 = calls s2" by (simp add: assms(4) Let_def)
  show "monitor s4 = monitor s" using m2 by (simp add: assms(4) Let_def)
  show st4: "state (worker s4) = state (worker s)" using st2 by (simp add: assms(4) Let_def)
  have ta4: "terminateAfter (providerData (worker s4)) = terminateAfter (providerData (worker s))"
    using ta2 by (simp add: assms(4) Let_def)
  show d2: "disks (providerData (worker s2)) = disks (providerData (worker (migrateDisk s)))"
    using f(8) by (simp add: assms(3) enqueue_instanceView_def)
  show "disks (providerData (worker s4)) = disks (providerData (worker (migrateDisk s)))"
    using d2 by (simp add: assms(4) Let_def)
  note t = checkWorker_try_observed [OF g v s2 assms(4), of "state (worker s)"]
  show "checkWorker ev cl s =
     (Inr (), setState ev
       (if successProvisioningStates (provisioningState res) \<and> list_ex successPowerStates powerStates
        then (if (case terminateAfter (providerData (worker s)) of
                    None \<Rightarrow> False | Some t \<Rightarrow> t \<noteq> 0 \<and> t < now ev)
              then removeWorker ev cl TerminateAfterExceeded s4
              else (state (worker s), s4))
        else if failProvisioningStates (provisioningState res) \<or> list_ex failPowerStates powerStates
        then removeWorker ev cl (FailedState (provisioningState res) powerStates) s2
        else (state (worker s),
              reportError ev \<lparr>kind = ''creation-error'',
                        title = ''Encountered unknown VM provisioningState or powerStates'',
                        description = ''Unknown provisioningState or powerStates''\<rparr> s2)))"
    unfolding checkWorker_def Let_def migrateDisk_simps t ta4
    by (simp split: option.splits)
qed

lemma setState_simps [simp]:
  "monitor (setState ev r) = monitor (snd r)"
  "calls (setState ev r) = calls (snd r)"
  "state (worker (setState ev r)) = fst r"
  "lastChecked (worker (setState ev r)) = now ev"
  by (simp_all add: setState_def)

text \<open>
  Claim C1. A worker becomes \<open>running\<close> only through \<^verbatim>\<open>registerWorker\<close>: when the
  provision pipeline completes, the state kept for the worker is still \<open>requested\<close>,
  and no pass of the scanner writes \<open>running\<close> for a worker that has not registered.
  The comment in \<^verbatim>\<open>provisionResources\<close> says so too, but the function returns
  \<open>RUNNING\<close> once \<^verbatim>\<open>vm.id\<close> is set and \<^verbatim>\<open>checkWorker\<close> writes what it returns.
  Here the IP and the NIC exist, the VM has been asked for, the GET of the VM now
  succeeds and its instance view is not there yet (404): after the pass the row is
  \<open>running\<close>, and \<^verbatim>\<open>registerWorker\<close> never ran (nothing was logged).
\<close>

theorem C1_checkWorker_writes_running:
  "state vm_requested_worker = REQUESTED
   \<and> fst (checkWorker ex_env cloud_no_view (fresh_state vm_requested_worker)) = Inr ()
   \<and> state (worker (snd (checkWorker ex_env cloud_no_view (fresh_state vm_requested_worker)))) = RUNNING
   \<and> monitor (snd (checkWorker ex_env cloud_no_view (fresh_state vm_requested_worker))) = []"
  by code_simp

text \<open>
  Claim C2, as stated: nothing writes a field of a worker that is \<open>stopped\<close>, not
  even \<^verbatim>\<open>checkWorker\<close>. A pass over a stopped worker writes \<^verbatim>\<open>lastChecked\<close>.
\<close>

theorem C2_checkWorker_writes_lastChecked_of_stopped:
  "state stopped_worker = STOPPED
   \<and> lastChecked (worker (snd (checkWorker ex_env cloud_absent (fresh_state stopped_worker))))
      \<noteq> lastChecked stopped_worker"
  by code_simp

lemma except_scanned_simps [simp]:
  "except_scanned (pd_update (\<lambda>pd. pd\<lparr>vm := (vm pd)\<lparr>vmId := v\<rparr>\<rparr>) w) = except_scanned w"
  "except_scanned (pd_update (\<lambda>pd. pd\<lparr>disks := ds\<rparr>) w) = except_scanned w"
  "except_scanned (w\<lparr>expires := t\<rparr>) = except_scanned w"
  "except_scanned (w\<lparr>lastChecked := c\<rparr>) = except_scanned w"
  "state (except_scanned w) = state w"
  by (simp_all add: except_scanned_def pd_update_def)

lemma except_scanned_state:
  "except_scanned w = except_scanned w' \<Longrightarrow> state w = state w'"
  by (metis except_scanned_simps(5))

lemma state_update_same: "state w = st \<Longrightarrow> w\<lparr>state := st\<rparr> = w"
  by (cases w) simp

lemma except_scanned_setState:
  "state w = STOPPED \<Longrightarrow> except_scanned (w\<lparr>lastChecked := c, state := STOPPED\<rparr>) = except_scanned w"
  by (simp add: state_update_same)

lemma fetchVmInfo_except_scanned:
  "except_scanned (worker (snd (fetchVmInfo cl s))) = except_scanned (worker s)"
  by (auto simp: fetchVmInfo_def enqueue_get_def Let_def split: sum.splits)

lemma checkWorker_try_stopped:
  assumes "state (worker s) = STOPPED"
  shows "except_scanned (worker (snd (checkWorker_try ev cl STOPPED s))) = except_scanned (worker s)
       \<and> (\<forall>st'. fst (checkWorker_try ev cl STOPPED s) = Inr st' \<longrightarrow> st' = STOPPED)"
proof -
  obtain r1 s1 where f: "fetchVmInfo cl s = (r1, s1)"
    by (cases "fetchVmInfo cl s")
  have e1: "except_scanned (worker s1) = except_scanned (worker s)"
    using fetchVmInfo_except_scanned [of cl s] f by simp
  have s1: "state (worker s1) = STOPPED"
    using except_scanned_state [OF e1] assms by simp
  show ?thesis
  proof (cases r1)
    case (Inl e)
    then show ?thesis using f e1 by (simp add: checkWorker_try_def)
  next
    case (Inr pv)
    obtain provState fetched where pv: "pv = (provState, fetched)" by (cases pv)
    obtain r2 s2 where v: "enqueue_instanceView cl (resourceGroupName (providerData (worker s1)))
             (r_name (vm (providerData (worker s1)))) s1 = (r2, s2)"
      by (cases "enqueue_instanceView cl (resourceGroupName (providerData (worker s1)))
             (r_name (vm (providerData (worker s1)))) s1")
    have s2: "worker s2 = worker s1"
      using v by (auto simp: enqueue_instanceView_def)
    show ?thesis
    proof (cases r2)
      case (Inl e)
      then show ?thesis using f Inr pv v e1 s2 by (simp add: checkWorker_try_def)
    next
      case (Inr powerStates)
      show ?thesis
        using f \<open>r1 = Inr pv\<close> pv v Inr s1 s2 e1
        by (simp add: checkWorker_try_def Let_def removeWorker_stopped split: option.splits)
    qed
  qed
qed

lemma checkWorker_stopped:
  assumes "state (worker s) = STOPPED"
  shows "except_scanned (worker (snd (checkWorker ev cl s))) = except_scanned (worker s)"
proof -
  define s0 where "s0 = migrateDisk s"
  have s0: "state (worker s0) = STOPPED" "except_scanned (worker s0) = except_scanned (worker s)"
    using assms by (simp_all add: s0_def migrateDisk_def split: option.splits)
  obtain r1 s1 where t: "checkWorker_try ev cl STOPPED s0 = (r1, s1)"
    by (cases "checkWorker_try ev cl STOPPED s0")
  have e1: "except_scanned (worker s1) = except_scanned (worker s)"
     and r1: "\<And>st'. r1 = Inr st' \<Longrightarrow> st' = STOPPED"
    using checkWorker_try_stopped [OF s0(1), of ev cl] t s0 by simp_all
  have s1: "state (worker s1) = STOPPED"
    using except_scanned_state [OF e1] assms by simp
  show ?thesis
    using t e1 s1 s0 r1
    by (cases r1)
       (auto simp: checkWorker_def Let_def s0_def [symmetric] removeWorker_stopped setState_def
          except_scanned_setState)
qed


lemma vmId_update_same:
  "pd_update (\<lambda>pd. pd\<lparr>vm := (vm pd)\<lparr>vmId := vmId (vm (providerData w))\<rparr>\<rparr>) w = w"
  by (cases w) (simp add: pd_update_def)

lemma workerVmId_row:
  "worker (snd (workerVmId cl s))
     = pd_update (\<lambda>pd. pd\<lparr>vm := (vm pd)\<lparr>vmId := vmId (vm (providerData
                     (worker (snd (workerVmId cl s)))))\<rparr>\<rparr>) (worker s)"
  by (auto simp: workerVmId_def fetchVmInfo_def enqueue_get_def Let_def vmId_update_same
        pd_update_def
      split: sum.splits)

lemma registerWorker_stopped:
  assumes "state (worker s) \<noteq> REQUESTED"
  shows "worker (snd (registerWorker ev cr cl document s))
         = pd_update (\<lambda>pd. pd\<lparr>vm := (vm pd)\<lparr>vmId := vmId (vm (providerData
                     (worker (snd (registerWorker ev cr cl document s)))))\<rparr>\<rparr>) (worker s)"
    and "\<exists>e. fst (registerWorker ev cr cl document s) = Inl e"
proof -
  obtain r1 s1 where f: "workerVmId cl s = (r1, s1)"
    by (cases "workerVmId cl s")
  have w1: "worker s1 = pd_update (\<lambda>pd. pd\<lparr>vm := (vm pd)\<lparr>vmId := vmId (vm (providerData
                     (worker s1)))\<rparr>\<rparr>) (worker s)"
    using workerVmId_row [of cl s] f by simp
  have st: "state (worker s1) \<noteq> REQUESTED"
    using assms by (subst w1) simp
  have "worker (snd (registerWorker ev cr cl document s)) = worker s1
        \<or> worker (snd (registerWorker ev cr cl document s)) = worker s"
    using f st
    by (auto simp: registerWorker_def registration_error_def
        split: sum.splits payload.splits option.splits)
  then show "worker (snd (registerWorker ev cr cl document s))
         = pd_update (\<lambda>pd. pd\<lparr>vm := (vm pd)\<lparr>vmId := vmId (vm (providerData
                     (worker (snd (registerWorker ev cr cl document s)))))\<rparr>\<rparr>) (worker s)"
    using w1 by (auto simp: vmId_update_same)
  show "\<exists>e. fst (registerWorker ev cr cl document s) = Inl e"
    using f st
    by (auto simp: registerWorker_def registration_error_def
        split: sum.splits payload.splits option.splits)
qed

lemma registerWorker_except_scanned:
  assumes "state (worker s) \<noteq> REQUESTED"
  shows "except_scanned (worker (snd (registerWorker ev cr cl document s))) = except_scanned (worker s)"
  by (subst registerWorker_stopped(1) [OF assms]) simp


lemma except_provisioned_simps [simp]:
  "except_provisioned (pd_update (modify_resource (Single t) fo fi) w) = except_provisioned w"
  "except_provisioned (nicModifyFunc res w) = except_provisioned w"
  "except_provisioned (vmModifyFunc res w) = except_provisioned w"
  "state (except_provisioned w) = state w"
  "lastModified (except_provisioned w) = lastModified w"
  by (cases t; simp add: except_provisioned_def pd_update_def modify_def
        nicModifyFunc_def vmModifyFunc_def)+

lemma except_commute:
  "except_provisioned (except_scanned w) = except_scanned (except_provisioned w)"
  by (simp add: except_provisioned_def except_scanned_def pd_update_def)

lemma except_both_simps [simp]:
  "state (except_provisioned (except_scanned w)) = state w"
  "lastModified (except_provisioned (except_scanned w)) = lastModified w"
  by (simp_all add: except_scanned_def)

lemma except_provisioned_state:
  "except_provisioned w = except_provisioned w' \<Longrightarrow> state w = state w'"
  by (metis except_provisioned_simps(4))


lemma handleOperation_worker [simp]: "worker (snd (handleOperation cl op s)) = worker s"
  by (auto simp: handleOperation_def enqueue_opRead_def
      split: sum.splits option.splits prod.splits)

lemma provisionResource_stopped:
  assumes "state (worker s) = STOPPED"
    and mf: "\<And>res w. except_provisioned (mf res w) = except_provisioned w"
  shows "except_provisioned (worker (snd (provisionResource ev cl c t rc mf s)))
           = except_provisioned (worker s)"
proof -
  have h: "worker s2 = worker s1" if "handleOperation cl op s1 = (b, s2)" for op s1 b s2
    using handleOperation_worker [of cl op s1] that by simp
  show ?thesis
    using assms(1)
    by (auto simp: provisionResource_def createResource_def enqueue_get_def
          enqueue_beginCreateOrUpdate_def Let_def removeWorker_stopped mf
        split: sum.splits bool.splits prod.splits dest!: h)
qed


lemma provisionResources_try_stopped:
  assumes "state (worker s) = STOPPED"
  shows "except_provisioned (worker (snd (provisionResources_try ev cl s)))
           = except_provisioned (worker s)"
proof -
  let ?E = "\<lambda>s. except_provisioned (worker s)"
  have step: "\<And>c t rc mf s r s'.
      (\<And>res w. except_provisioned (mf res w) = except_provisioned w) \<Longrightarrow>
      state (worker s) = STOPPED \<Longrightarrow>
      provisionResource ev cl c t rc mf s = (r, s') \<Longrightarrow> ?E s' = ?E s"
    using provisionResource_stopped by (metis snd_conv)
  obtain r1 s1 where one: "provisionResource ev cl PublicIPAddresses IP
             (IpConfig (location (providerData (worker s)))) (\<lambda>res w. w) s = (r1, s1)"
    by (cases "provisionResource ev cl PublicIPAddresses IP
             (IpConfig (location (providerData (worker s)))) (\<lambda>res w. w) s")
  have e1: "?E s1 = ?E s"
    by (rule step [OF _ assms one]) simp
  have st1: "state (worker s1) = STOPPED"
    using except_provisioned_state [OF e1] assms by simp
  obtain r2 s2 where two: "provisionResource ev cl NetworkInterfaces NIC
             (NicConfig (location (providerData (worker s1))) (r_name (nic (providerData (worker s1))))
                (subnet_id (providerData (worker s1))) (r_id (ip (providerData (worker s1)))))
             nicModifyFunc s1 = (r2, s2)"
    by (cases "provisionResource ev cl NetworkInterfaces NIC
             (NicConfig (location (providerData (worker s1))) (r_name (nic (providerData (worker s1))))
                (subnet_id (providerData (worker s1))) (r_id (ip (providerData (worker s1)))))
             nicModifyFunc s1")
  have e2: "?E s2 = ?E s"
    using step [OF _ st1 two] e1 by simp
  have st2: "state (worker s2) = STOPPED"
    using except_provisioned_state [OF e2] assms by simp
  have e3: "?E s3 = ?E s"
    if "provisionResource ev cl VirtualMachines VM (VmConfig cfg) vmModifyFunc s2 = (r3, s3)"
    for cfg r3 s3
    using step [OF _ st2 that] e2 by simp
  show ?thesis
    unfolding provisionResources_try_def one
    using e1 e2 two
    by (cases r1; cases r2)
       (auto split: sum.splits prod.splits dest: e3)
qed

lemma provisionResources_stopped:
  assumes "state (worker s) = STOPPED"
  shows "except_provisioned (worker (snd (provisionResources ev cl s)))
           = except_provisioned (worker s)"
proof -
  obtain r s1 where t: "provisionResources_try ev cl s = (r, s1)"
    by (cases "provisionResources_try ev cl s")
  have e1: "except_provisioned (worker s1) = except_provisioned (worker s)"
    using provisionResources_try_stopped [OF assms, of ev cl] t by simp
  have st1: "state (worker s1) = STOPPED"
    using except_provisioned_state [OF e1] assms by simp
  show ?thesis
    using t e1 st1
    by (cases r) (simp_all add: provisionResources_def removeWorker_stopped)
qed

lemma perform_stopped:
  assumes "state (worker s) = STOPPED"
  shows "op \<noteq> ProvisionResources \<Longrightarrow>
           except_scanned (worker (perform cr cl ev op s)) = except_scanned (worker s)"
    and "except_provisioned (except_scanned (worker (perform cr cl ev op s)))
           = except_provisioned (except_scanned (worker s))"
proof -
  have ne: "state (worker s) \<noteq> REQUESTED"
    using assms by simp
  show a: "op \<noteq> ProvisionResources \<Longrightarrow>
           except_scanned (worker (perform cr cl ev op s)) = except_scanned (worker s)"
    by (cases op)
       (simp_all add: checkWorker_stopped [OF assms] registerWorker_except_scanned [OF ne]
          removeWorker_stopped [OF assms])
  show "except_provisioned (except_scanned (worker (perform cr cl ev op s)))
           = except_provisioned (except_scanned (worker s))"
  proof (cases "op = ProvisionResources")
    case True
    then show ?thesis
      by (simp add: except_commute provisionResources_stopped [OF assms])
  next
    case False
    then show ?thesis
      by (simp add: a)
  qed
qed

lemma run_stopped:
  "state (worker s) = STOPPED \<Longrightarrow>
   except_provisioned (except_scanned (worker (run cr cl ops s)))
     = except_provisioned (except_scanned (worker s))
   \<and> (list_all (\<lambda>x. snd x \<noteq> ProvisionResources) ops \<longrightarrow>
        except_scanned (worker (run cr cl ops s)) = except_scanned (worker s))"
proof (induction ops arbitrary: s)
  case Nil
  show ?case by simp
next
  case (Cons a ops)
  obtain ev op where a: "a = (ev, op)" by (cases a)
  let ?s1 = "perform cr cl ev op s"
  note p = perform_stopped [OF Cons.prems, where op = op and cr = cr and cl = cl and ev = ev]
  have "state (worker ?s1) = state (worker s)"
    using arg_cong [OF p(2), of state] by (simp only: except_both_simps)
  then have st: "state (worker ?s1) = STOPPED"
    using Cons.prems by simp
  from Cons.IH [OF st] p show ?case
    by (simp add: a)
qed

text \<open>
  Claim C2, amended. For every worker whose state is \<open>stopped\<close>: \<^verbatim>\<open>removeWorker\<close>
  returns \<open>stopped\<close> at once, with no call to the cloud and no write of the row (it logs
  the removal). \<^verbatim>\<open>registerWorker\<close> throws and writes no field but
  \<^verbatim>\<open>providerData.vm.vmId\<close>. A pass of \<^verbatim>\<open>checkWorker\<close> writes no field but \<^verbatim>\<open>lastChecked\<close>,
  \<^verbatim>\<open>expires\<close>, \<^verbatim>\<open>providerData.vm.vmId\<close> and \<^verbatim>\<open>providerData.disks\<close>, and so does every
  sequence of these three operations. \<^verbatim>\<open>provisionResources\<close>, which the scanner invokes
  for a \<open>requested\<close> worker only, writes no field but \<^verbatim>\<open>operation\<close> and \<^verbatim>\<open>id\<close> of the
  IP, the NIC and the VM, the network interfaces of the VM's configuration and
  \<^verbatim>\<open>providerData.disks\<close>. So in every sequence of operations the state stays
  \<open>stopped\<close>, \<^verbatim>\<open>lastModified\<close> stays what it is, and so does every field not named here.
\<close>

theorem C2_stopped_is_kept:
  assumes "state (worker s) = STOPPED"
  shows "removeWorker ev cl why s = (STOPPED, s\<lparr>monitor := monitor s @ [WorkerRemoved why]\<rparr>)
       \<and> new_calls s (snd (removeWorker ev cl why s)) = []
       \<and> new_writes s (snd (removeWorker ev cl why s)) = []
       \<and> worker (snd (removeWorker ev cl why s)) = worker s
       \<and> (\<exists>e. fst (registerWorker ev cr cl document s) = Inl e)
       \<and> worker (snd (registerWorker ev cr cl document s))
           = pd_update (\<lambda>pd. pd\<lparr>vm := (vm pd)\<lparr>vmId := vmId (vm (providerData
                 (worker (snd (registerWorker ev cr cl document s)))))\<rparr>\<rparr>) (worker s)
       \<and> except_scanned (worker (snd (checkWorker ev cl s))) = except_scanned (worker s)
       \<and> except_provisioned (worker (snd (provisionResources ev cl s)))
           = except_provisioned (worker s)
       \<and> (\<forall>ops. list_all (\<lambda>x. snd x \<noteq> ProvisionResources) ops \<longrightarrow>
              except_scanned (worker (run cr cl ops s)) = except_scanned (worker s))
       \<and> (\<forall>ops. except_provisioned (except_scanned (worker (run cr cl ops s)))
                  = except_provisioned (except_scanned (worker s))
                \<and> state (worker (run cr cl ops s)) = STOPPED
                \<and> lastModified (worker (run cr cl ops s)) = lastModified (worker s))"
proof -
  have ne: "state (worker s) \<noteq> REQUESTED"
    using assms by simp
  have r: "removeWorker ev cl why s = (STOPPED, s\<lparr>monitor := monitor s @ [WorkerRemoved why]\<rparr>)"
    by (rule removeWorker_stopped [OF assms])
  have r': "new_calls s (snd (removeWorker ev cl why s)) = []"
      "new_writes s (snd (removeWorker ev cl why s)) = []"
      "worker (snd (removeWorker ev cl why s)) = worker s"
    by (simp_all add: r new_calls_def new_writes_def)
  have all: "except_provisioned (except_scanned (worker (run cr cl ops s)))
                  = except_provisioned (except_scanned (worker s))
                \<and> state (worker (run cr cl ops s)) = STOPPED
                \<and> lastModified (worker (run cr cl ops s)) = lastModified (worker s)" for ops
  proof -
    have e: "except_provisioned (except_scanned (worker (run cr cl ops s)))
                  = except_provisioned (except_scanned (worker s))"
      using run_stopped [OF assms, of cr cl ops] by simp
    have st: "state (worker (run cr cl ops s)) = state (worker s)"
      using arg_cong [OF e, of state] by (simp only: except_both_simps)
    have lm: "lastModified (worker (run cr cl ops s)) = lastModified (worker s)"
      using arg_cong [OF e, of lastModified] by (simp only: except_both_simps)
    show ?thesis
      using e st lm assms by (simp only: simp_thms)
  qed
  show ?thesis
    using r r' registerWorker_stopped [OF ne, of ev cr cl document] checkWorker_stopped [OF assms, of ev cl]
      provisionResources_stopped [OF assms, of ev cl] run_stopped [OF assms, of cr cl] all
    by (intro conjI allI) simp_all
qed

theorem C2_stopped_is_kept_witness:
  "state (worker (fresh_state stopped_worker)) = STOPPED
   \<and> list_all (\<lambda>x. snd x \<noteq> ProvisionResources)
        [(ex_env, CheckWorker), (ex_env, RegisterWorker ''signed''), (ex_env, RemoveWorker ContinuingRemoval)]
   \<and> new_calls (fresh_state stopped_worker)
        (snd (removeWorker ex_env cloud_healthy ContinuingRemoval (fresh_state stopped_worker))) = []
   \<and> except_scanned (worker (run ex_crypto cloud_healthy
        [(ex_env, CheckWorker), (ex_env, RegisterWorker ''signed''), (ex_env, RemoveWorker ContinuingRemoval)]
        (fresh_state stopped_worker))) = except_scanned stopped_worker
   \<and> state (worker (run ex_crypto cloud_healthy
        [(ex_env, CheckWorker), (ex_env, RegisterWorker ''signed''), (ex_env, RemoveWorker ContinuingRemoval)]
        (fresh_state stopped_worker))) = STOPPED"
proof -
  let ?ops = "[(ex_env, CheckWorker), (ex_env, RegisterWorker ''signed''),
               (ex_env, RemoveWorker ContinuingRemoval)]"
  have h: "state (worker (fresh_state stopped_worker)) = STOPPED"
    by code_simp
  have l: "list_all (\<lambda>x. snd x \<noteq> ProvisionResources) ?ops"
    by simp
  have w: "worker (fresh_state stopped_worker) = stopped_worker"
    by (simp add: fresh_state_def)
  note r = C2_stopped_is_kept [OF h, of ex_env cloud_healthy ContinuingRemoval ex_crypto "''signed''"]
  from r have a: "new_calls (fresh_state stopped_worker)
        (snd (removeWorker ex_env cloud_healthy ContinuingRemoval (fresh_state stopped_worker))) = []"
    by (elim conjE)
  from r have "\<forall>ops. list_all (\<lambda>x. snd x \<noteq> ProvisionResources) ops \<longrightarrow>
              except_scanned (worker (run ex_crypto cloud_healthy ops (fresh_state stopped_worker)))
                = except_scanned (worker (fresh_state stopped_worker))"
    by (elim conjE)
  with l have b: "except_scanned (worker (run ex_crypto cloud_healthy ?ops (fresh_state stopped_worker)))
                = except_scanned stopped_worker"
    unfolding w by (elim allE [of _ ?ops] impE)
  from r have "\<forall>ops. except_provisioned (except_scanned (worker (run ex_crypto cloud_healthy ops
                      (fresh_state stopped_worker))))
                  = except_provisioned (except_scanned (worker (fresh_state stopped_worker)))
                \<and> state (worker (run ex_crypto cloud_healthy ops (fresh_state stopped_worker))) = STOPPED
                \<and> lastModified (worker (run ex_crypto cloud_healthy ops (fresh_state stopped_worker)))
                    = lastModified (worker (fresh_state stopped_worker))"
    by (elim conjE)
  then have c: "state (worker (run ex_crypto cloud_healthy ?ops (fresh_state stopped_worker))) = STOPPED"
    by (elim allE [of _ ?ops] conjE)
  show ?thesis
    by (intro conjI h l a b c)
qed

text \<open>
  Claim C3, as stated: a pass moves a legacy \<^verbatim>\<open>disk\<close> into a one-element \<^verbatim>\<open>disks\<close>
  and removes the \<^verbatim>\<open>disk\<close> field, and does nothing when \<^verbatim>\<open>disks\<close> exists. After a
  pass over a row with \<^verbatim>\<open>disk\<close> and no \<^verbatim>\<open>disks\<close> the \<^verbatim>\<open>disk\<close> field is still
  there; and a row that has both loses its two \<^verbatim>\<open>disks\<close> for the legacy one.
\<close>

theorem C3_disk_kept_and_disks_overwritten:
  "disks (providerData legacy_worker) = None
   \<and> disk (providerData (worker (snd (checkWorker ex_env cloud_healthy (fresh_state legacy_worker)))))
       = Some \<lparr>r_name = ''old_test_disk'', r_operation = None, r_id = NoId\<rparr>
   \<and> disks (providerData both_worker) \<noteq> None
   \<and> disks (providerData (worker (snd (checkWorker ex_env cloud_healthy (fresh_state both_worker)))))
       = Some [\<lparr>r_name = ''old_test_disk'', r_operation = None, r_id = NoId\<rparr>]"
  by code_simp

text \<open>
  Claim C3, amended. For every worker whose \<^verbatim>\<open>providerData\<close> has the legacy \<^verbatim>\<open>disk\<close>
  field, with or without \<^verbatim>\<open>disks\<close>, the first row a pass of \<^verbatim>\<open>checkWorker\<close> writes is
  the row with \<^verbatim>\<open>disks\<close> set to the one-element sequence of that disk and every other
  field as it was. The \<^verbatim>\<open>disk\<close> field is still there at the end of the pass. When
  the pass finds the VM and removes nothing (the VM is healthy and \<^verbatim>\<open>terminateAfter\<close>
  has not passed, or its states are neither healthy nor failing), \<^verbatim>\<open>disks\<close> is that
  one-element sequence at the end; and for a worker that is not \<open>requested\<close> (the
  pass then provisions nothing) \<^verbatim>\<open>disks\<close> has one element at the end of every pass,
  with the name of the old disk.
\<close>

theorem C3_legacy_disk_becomes_disks:
  assumes "disk (providerData (worker s)) = Some d"
  shows "(\<exists>rest. new_writes s (snd (checkWorker ev cl s))
            = pd_update (\<lambda>pd. pd\<lparr>disks := Some [d]\<rparr>) (worker s) # rest)
       \<and> disk (providerData (worker (snd (checkWorker ev cl s)))) = Some d
       \<and> (\<forall>res powerStates.
             c_get cl (length (calls s)) VirtualMachines (resourceGroupName (providerData (worker s)))
               (r_name (vm (providerData (worker s)))) = Inr res
           \<and> c_instanceView cl (Suc (length (calls s))) (resourceGroupName (providerData (worker s)))
               (r_name (vm (providerData (worker s)))) = Inr powerStates
           \<and> (if successProvisioningStates (provisioningState res)
                   \<and> list_ex successPowerStates powerStates
                then (case terminateAfter (providerData (worker s)) of
                        None \<Rightarrow> True | Some t \<Rightarrow> \<not> (t \<noteq> 0 \<and> t < now ev))
                else \<not> (failProvisioningStates (provisioningState res)
                        \<or> list_ex failPowerStates powerStates))
           \<longrightarrow> disks (providerData (worker (snd (checkWorker ev cl s)))) = Some [d])
       \<and> (state (worker s) \<noteq> REQUESTED \<longrightarrow>
            map_option (map r_name) (disks (providerData (worker (snd (checkWorker ev cl s)))))
              = Some [r_name d])"
proof -
  have m: "migrateDisk s = update (pd_update (\<lambda>pd. pd\<lparr>disks := Some [d]\<rparr>)) s"
    using assms by (simp add: migrateDisk_def)
  from checkWorker_written [of ev cl s] obtain ws
    where "written (snd (checkWorker ev cl s)) = written (migrateDisk s) @ ws"
    by blast
  then have first: "\<exists>rest. new_writes s (snd (checkWorker ev cl s))
            = pd_update (\<lambda>pd. pd\<lparr>disks := Some [d]\<rparr>) (worker s) # rest"
    by (simp add: m new_writes_def)
  have kept: "disk (providerData (worker (snd (checkWorker ev cl s)))) = Some d"
    using checkWorker_pipeline_frame [OF pipeline_frame_disk, of ev cl s] assms by simp
  have quiet: "disks (providerData (worker (snd (checkWorker ev cl s)))) = Some [d]"
    if g: "c_get cl (length (calls s)) VirtualMachines (resourceGroupName (providerData (worker s)))
               (r_name (vm (providerData (worker s)))) = Inr res"
      and v: "c_instanceView cl (Suc (length (calls s))) (resourceGroupName (providerData (worker s)))
               (r_name (vm (providerData (worker s)))) = Inr powerStates"
      and q: "if successProvisioningStates (provisioningState res)
                   \<and> list_ex successPowerStates powerStates
                then (case terminateAfter (providerData (worker s)) of
                        None \<Rightarrow> True | Some t \<Rightarrow> \<not> (t \<noteq> 0 \<and> t < now ev))
                else \<not> (failProvisioningStates (provisioningState res)
                        \<or> list_ex failPowerStates powerStates)"
    for res powerStates
  proof -
    define s2 where "s2 = snd (enqueue_instanceView cl (resourceGroupName (providerData (worker s)))
                    (r_name (vm (providerData (worker s)))) (snd (fetchVmInfo cl (migrateDisk s))))"
    define s4 where "s4 = (let s3 = s2\<lparr>seen := seen s2 + (if capacity (worker s2) = 0 then 1
                                               else capacity (worker s2))\<rparr>
              in if expires (worker s3) < now ev + day
                 then update (\<lambda>w. w\<lparr>expires := now ev + 7 * day\<rparr>) s3 else s3)"
    note o = checkWorker_observed [OF g v s2_def s4_def]
    have d: "disks (providerData (worker (migrateDisk s))) = Some [d]"
      by (simp add: m)
    show ?thesis
      using q unfolding o(1)
      by (auto simp: setState_def o(8,9) d split: if_splits option.splits)
  qed
  have names: "map_option (map r_name) (disks (providerData (worker (snd (checkWorker ev cl s)))))
              = Some [r_name d]" if "state (worker s) \<noteq> REQUESTED"
    using checkWorker_frame [OF scan_frame_disk_names that, of ev cl] by (simp add: m)
  show ?thesis
    using first kept quiet names by blast
qed

theorem C3_legacy_disk_becomes_disks_witness:
  "disk (providerData (worker (fresh_state legacy_worker)))
      = Some \<lparr>r_name = ''old_test_disk'', r_operation = None, r_id = NoId\<rparr>
   \<and> state (worker (fresh_state legacy_worker)) \<noteq> REQUESTED
   \<and> hd (new_writes (fresh_state legacy_worker)
            (snd (checkWorker ex_env cloud_healthy (fresh_state legacy_worker))))
       = pd_update (\<lambda>pd. pd\<lparr>disks := Some
            [\<lparr>r_name = ''old_test_disk'', r_operation = None, r_id = NoId\<rparr>]\<rparr>) legacy_worker
   \<and> disk (providerData (worker (snd (checkWorker ex_env cloud_healthy (fresh_state legacy_worker)))))
       = Some \<lparr>r_name = ''old_test_disk'', r_operation = None, r_id = NoId\<rparr>
   \<and> disks (providerData (worker (snd (checkWorker ex_env cloud_healthy (fresh_state legacy_worker)))))
       = Some [\<lparr>r_name = ''old_test_disk'', r_operation = None, r_id = NoId\<rparr>]
   \<and> map_option (map r_name) (disks (providerData (worker (snd (checkWorker ex_env
          cloud_healthy (fresh_state legacy_worker))))))
      = Some [''old_test_disk'']"
proof -
  let ?s = "fresh_state legacy_worker"
  let ?d = "\<lparr>r_name = ''old_test_disk'', r_operation = None, r_id = NoId\<rparr>"
  have h: "disk (providerData (worker ?s)) = Some ?d"
    by code_simp
  have st: "state (worker ?s) \<noteq> REQUESTED"
    by code_simp
  have w: "worker ?s = legacy_worker"
    by (simp add: fresh_state_def)
  have g: "c_get cloud_healthy (length (calls ?s)) VirtualMachines
             (resourceGroupName (providerData (worker ?s)))
             (r_name (vm (providerData (worker ?s)))) = Inr (ex_vm ''Succeeded'')"
    by (simp add: cloud_healthy_def ex_cloud_def ex_resource_def)
  have v: "c_instanceView cloud_healthy (Suc (length (calls ?s)))
             (resourceGroupName (providerData (worker ?s)))
             (r_name (vm (providerData (worker ?s)))) = Inr [''PowerState/running'']"
    by (simp add: cloud_healthy_def ex_cloud_def)
  have q: "if successProvisioningStates (provisioningState (ex_vm ''Succeeded''))
              \<and> list_ex successPowerStates [''PowerState/running'']
           then (case terminateAfter (providerData (worker ?s)) of
                   None \<Rightarrow> True | Some t \<Rightarrow> \<not> (t \<noteq> 0 \<and> t < now ex_env))
           else \<not> (failProvisioningStates (provisioningState (ex_vm ''Succeeded''))
                   \<or> list_ex failPowerStates [''PowerState/running''])"
    by code_simp
  note r = C3_legacy_disk_becomes_disks [OF h, of ex_env cloud_healthy]
  from conjunct1 [OF r] obtain rest
    where "new_writes ?s (snd (checkWorker ex_env cloud_healthy ?s))
            = pd_update (\<lambda>pd. pd\<lparr>disks := Some [?d]\<rparr>) (worker ?s) # rest" ..
  then have a: "hd (new_writes ?s (snd (checkWorker ex_env cloud_healthy ?s)))
            = pd_update (\<lambda>pd. pd\<lparr>disks := Some [?d]\<rparr>) legacy_worker"
    by (simp only: list.sel w)
  note b = conjunct1 [OF conjunct2 [OF r]]
  note r3 = conjunct1 [OF conjunct2 [OF conjunct2 [OF r]]]
  have c: "disks (providerData (worker (snd (checkWorker ex_env cloud_healthy ?s)))) = Some [?d]"
    by (rule mp [OF spec [OF spec [OF r3]] conjI [OF g conjI [OF v q]]])
  have "map_option (map r_name) (disks (providerData (worker (snd (checkWorker ex_env
          cloud_healthy ?s))))) = Some [r_name ?d]"
    by (rule mp [OF conjunct2 [OF conjunct2 [OF conjunct2 [OF r]]] st])
  then have d: "map_option (map r_name) (disks (providerData (worker (snd (checkWorker ex_env
          cloud_healthy ?s))))) = Some [''old_test_disk'']"
    by simp
  show ?thesis
    by (intro conjI h st a b c d)
qed

text \<open>
  Claim C8, as stated: whenever the VM is observable and its provisioning state or one
  of its power states is a failing one, \<^verbatim>\<open>removeWorker\<close> is invoked, also when the VM
  is healthy at the same time. With the power states \<open>running\<close> and \<open>stopped\<close> and
  the provisioning state \<open>Succeeded\<close> the healthy branch is taken and
  \<^verbatim>\<open>removeWorker\<close> is not invoked (it would have logged the removal).
\<close>

theorem C8_healthy_branch_wins:
  "list_ex failPowerStates [''PowerState/running'', ''PowerState/stopped'']
   \<and> fst (checkWorker ex_env cloud_mixed_power (fresh_state running_worker)) = Inr ()
   \<and> monitor (snd (checkWorker ex_env cloud_mixed_power (fresh_state running_worker))) = []
   \<and> state (worker (snd (checkWorker ex_env cloud_mixed_power (fresh_state running_worker)))) = RUNNING"
  by code_simp

text \<open>
  Claim C8, amended. In every pass of \<^verbatim>\<open>checkWorker\<close> in which the VM is observable
  (the GET of the VM and of its instance view succeed), the healthy test comes first.
  When the VM is not healthy (provisioning state one of Succeeded, Creating, Updating
  and some power state running or starting) and its provisioning state is one of
  Failed, Deleting, Canceled, Deallocating or one of its power states is one of
  stopping, stopped, deallocating, deallocated, the pass is \<^verbatim>\<open>removeWorker\<close> with the
  reason that names the states, run on the row as the two reads left it, followed by the
  update that writes the state \<^verbatim>\<open>removeWorker\<close> returned. When the VM is healthy, whatever
  its other power states are, \<^verbatim>\<open>removeWorker\<close> is invoked only if \<^verbatim>\<open>terminateAfter\<close> has
  passed, with that reason; otherwise the pass removes nothing: it makes the two reads
  and no other call, logs no removal and keeps the state.
\<close>

theorem C8_failed_vm_is_removed:
  assumes "c_get cl (length (calls s)) VirtualMachines (resourceGroupName (providerData (worker s)))
             (r_name (vm (providerData (worker s)))) = Inr res"
    and "c_instanceView cl (Suc (length (calls s))) (resourceGroupName (providerData (worker s)))
             (r_name (vm (providerData (worker s)))) = Inr powerStates"
  shows
    "let healthy = (successProvisioningStates (provisioningState res)
                    \<and> list_ex successPowerStates powerStates);
         failed = (failProvisioningStates (provisioningState res)
                    \<or> list_ex failPowerStates powerStates);
         passed = (case terminateAfter (providerData (worker s)) of
                     None \<Rightarrow> False | Some t \<Rightarrow> t \<noteq> 0 \<and> t < now ev);
         s2 = snd (enqueue_instanceView cl (resourceGroupName (providerData (worker s)))
                    (r_name (vm (providerData (worker s)))) (snd (fetchVmInfo cl (migrateDisk s))));
         s3 = s2\<lparr>seen := seen s2 + (if capacity (worker s2) = 0 then 1 else capacity (worker s2))\<rparr>;
         s4 = (if expires (worker s3) < now ev + day
               then update (\<lambda>w. w\<lparr>expires := now ev + 7 * day\<rparr>) s3 else s3)
     in (\<not> healthy \<and> failed \<longrightarrow>
           checkWorker ev cl s =
             (Inr (), setState ev
                (removeWorker ev cl (FailedState (provisioningState res) powerStates) s2))
         \<and> monitor (snd (checkWorker ev cl s))
             = monitor s @ [WorkerRemoved (FailedState (provisioningState res) powerStates)])
      \<and> (healthy \<and> passed \<longrightarrow>
           checkWorker ev cl s = (Inr (), setState ev (removeWorker ev cl TerminateAfterExceeded s4))
         \<and> monitor (snd (checkWorker ev cl s)) = monitor s @ [WorkerRemoved TerminateAfterExceeded])
      \<and> (healthy \<and> \<not> passed \<longrightarrow>
           checkWorker ev cl s = (Inr (), setState ev (state (worker s), s4))
         \<and> monitor (snd (checkWorker ev cl s)) = monitor s
         \<and> state (worker (snd (checkWorker ev cl s))) = state (worker s)
         \<and> new_calls s (snd (checkWorker ev cl s))
             = [Get VirtualMachines (resourceGroupName (providerData (worker s)))
                  (r_name (vm (providerData (worker s)))) (Inr res),
                InstanceView (resourceGroupName (providerData (worker s)))
                  (r_name (vm (providerData (worker s))))])"
proof -
  define s2 where "s2 = snd (enqueue_instanceView cl (resourceGroupName (providerData (worker s)))
                    (r_name (vm (providerData (worker s)))) (snd (fetchVmInfo cl (migrateDisk s))))"
  define s4 where "s4 = (let s3 = s2\<lparr>seen := seen s2 + (if capacity (worker s2) = 0 then 1
                                               else capacity (worker s2))\<rparr>
              in if expires (worker s3) < now ev + day
                 then update (\<lambda>w. w\<lparr>expires := now ev + 7 * day\<rparr>) s3 else s3)"
  note o = checkWorker_observed [OF assms s2_def s4_def]
  have a: "monitor (snd (removeWorker ev cl why s2)) = monitor s @ [WorkerRemoved why]" for why
    by (simp add: removeWorker_monitor o(4))
  have b: "monitor (snd (removeWorker ev cl why s4)) = monitor s @ [WorkerRemoved why]" for why
    by (simp add: removeWorker_monitor o(5))
  show ?thesis
    unfolding Let_def s2_def [symmetric] s4_def [unfolded Let_def, symmetric]
    by (simp add: o(1) a b o(2,3,5,7))
qed


theorem C8_failed_vm_is_removed_witness:
  "failProvisioningStates (provisioningState (ex_vm ''Deleting''))
   \<and> \<not> successProvisioningStates (provisioningState (ex_vm ''Deleting''))
   \<and> monitor (snd (checkWorker ex_env cloud_deleting (fresh_state running_worker)))
       = [WorkerRemoved (FailedState (Some ''Deleting'') [''PowerState/running''])]
   \<and> list_ex failPowerStates [''PowerState/running'', ''PowerState/stopped'']
   \<and> successProvisioningStates (provisioningState (ex_vm ''Succeeded''))
   \<and> list_ex successPowerStates [''PowerState/running'', ''PowerState/stopped'']
   \<and> monitor (snd (checkWorker ex_env cloud_mixed_power (fresh_state running_worker))) = []
   \<and> state (worker (snd (checkWorker ex_env cloud_mixed_power (fresh_state running_worker)))) = RUNNING"
proof -
  let ?s = "fresh_state running_worker"
  have g: "c_get cloud_deleting (length (calls ?s)) VirtualMachines
             (resourceGroupName (providerData (worker ?s)))
             (r_name (vm (providerData (worker ?s)))) = Inr (ex_vm ''Deleting'')"
    by (simp add: cloud_deleting_def ex_cloud_def ex_resource_def)
  have v: "c_instanceView cloud_deleting (Suc (length (calls ?s)))
             (resourceGroupName (providerData (worker ?s)))
             (r_name (vm (providerData (worker ?s)))) = Inr [''PowerState/running'']"
    by (simp add: cloud_deleting_def ex_cloud_def)
  have f: "failProvisioningStates (provisioningState (ex_vm ''Deleting''))"
    by code_simp
  have n: "\<not> successProvisioningStates (provisioningState (ex_vm ''Deleting''))"
    by code_simp
  have k: "\<not> (successProvisioningStates (provisioningState (ex_vm ''Deleting''))
            \<and> list_ex successPowerStates [''PowerState/running''])"
    using n by (rule contrapos_nn) (rule conjunct1)
  note r = C8_failed_vm_is_removed [OF g v, of ex_env, unfolded Let_def]
  note r1 = mp [OF conjunct1 [OF r] conjI [OF k disjI1 [OF f]]]
  have m: "monitor ?s = []" "state (worker ?s) = RUNNING"
    by (simp_all add: fresh_state_def running_worker_def)
  have p: "provisioningState (ex_vm ''Deleting'') = Some ''Deleting''"
    by (simp add: ex_vm_def)
  have a: "monitor (snd (checkWorker ex_env cloud_deleting ?s))
       = [WorkerRemoved (FailedState (Some ''Deleting'') [''PowerState/running''])]"
    using conjunct2 [OF r1] by (simp only: m p append_Nil)
  have g': "c_get cloud_mixed_power (length (calls ?s)) VirtualMachines
             (resourceGroupName (providerData (worker ?s)))
             (r_name (vm (providerData (worker ?s)))) = Inr (ex_vm ''Succeeded'')"
    by (simp add: cloud_mixed_power_def ex_cloud_def ex_resource_def)
  have v': "c_instanceView cloud_mixed_power (Suc (length (calls ?s)))
             (resourceGroupName (providerData (worker ?s)))
             (r_name (vm (providerData (worker ?s))))
              = Inr [''PowerState/running'', ''PowerState/stopped'']"
    by (simp add: cloud_mixed_power_def ex_cloud_def)
  have fp: "list_ex failPowerStates [''PowerState/running'', ''PowerState/stopped'']"
    by code_simp
  have sp: "successProvisioningStates (provisioningState (ex_vm ''Succeeded''))"
    by code_simp
  have sw: "list_ex successPowerStates [''PowerState/running'', ''PowerState/stopped'']"
    by code_simp
  have np: "\<not> (case terminateAfter (providerData (worker ?s)) of
                None \<Rightarrow> False | Some t \<Rightarrow> t \<noteq> 0 \<and> t < now ex_env)"
    by code_simp
  note r' = C8_failed_vm_is_removed [OF g' v', of ex_env, unfolded Let_def]
  note r2 = mp [OF conjunct2 [OF conjunct2 [OF r']] conjI [OF conjI [OF sp sw] np]]
  have b: "monitor (snd (checkWorker ex_env cloud_mixed_power ?s)) = []"
    using conjunct1 [OF conjunct2 [OF r2]] by (simp only: m)
  have c: "state (worker (snd (checkWorker ex_env cloud_mixed_power ?s))) = RUNNING"
    using conjunct1 [OF conjunct2 [OF conjunct2 [OF r2]]] by (simp only: m)
  show ?thesis
    by (intro conjI f n a fp sp sw b c)
qed

subsection \<open>Registration\<close>

lemma workerVmId_stored:
  "truthy (vmId (vm (providerData (worker s)))) \<Longrightarrow>
   workerVmId cl s = (Inr (vmId (vm (providerData (worker s)))), s)"
  by (simp add: workerVmId_def)

lemma workerVmId_fetched:
  assumes "\<not> truthy (vmId (vm (providerData (worker s))))"
    and "c_get cl (length (calls s)) VirtualMachines (resourceGroupName (providerData (worker s)))
           (r_name (vm (providerData (worker s)))) = Inr res"
  shows "workerVmId cl s =
      (Inr (cr_vmId res),
       update (pd_update (\<lambda>pd. pd\<lparr>vm := (vm pd)\<lparr>vmId := cr_vmId res\<rparr>\<rparr>))
         (s\<lparr>calls := calls s @ [Get VirtualMachines (resourceGroupName (providerData (worker s)))
                                  (r_name (vm (providerData (worker s)))) (Inr res)]\<rparr>))"
  using assms by (simp add: workerVmId_def fetchVmInfo_def enqueue_get_def Let_def)

text \<open>
  Claim C4, as stated: for a worker that is not \<open>requested\<close>, a document that passes
  the signature, chain, vmId and time stamp checks is refused with the opaque error
  and the row is not changed. When the row had no \<^verbatim>\<open>vm.vmId\<close>, the refused call has
  written the fetched one.
\<close>

theorem C4_refused_registration_changes_row:
  "state running_worker \<noteq> REQUESTED
   \<and> fst (registerWorker ex_env ex_crypto cloud_no_view ''signed'' (fresh_state running_worker))
       = Inl (ApiError ''Signature validation error'')
   \<and> worker (snd (registerWorker ex_env ex_crypto cloud_no_view ''signed'' (fresh_state running_worker)))
       \<noteq> running_worker"
  by code_simp

text \<open>
  Claim C4, amended. For every worker whose state is not \<open>requested\<close>,
  \<^verbatim>\<open>registerWorker\<close>, given a document that passes the signature, chain, vmId and time
  stamp checks, throws the opaque error \<open>Signature validation error\<close> and leaves the
  state, \<^verbatim>\<open>lastModified\<close> and \<^verbatim>\<open>terminateAfter\<close> of the row as they are; the row is
  unchanged when it had a \<^verbatim>\<open>vm.vmId\<close>, and otherwise differs only by the vmId fetched
  from the cloud.
\<close>

theorem C4_duplicate_registration_refused:
  assumes "decode_document cr document = Inr (Object p)"
    and "state (worker s) \<noteq> REQUESTED"
    and "truthy (vmId (vm (providerData (worker s)))) \<longrightarrow>
           p_vmId p = vmId (vm (providerData (worker s)))"
    and "\<not> truthy (vmId (vm (providerData (worker s)))) \<longrightarrow>
           c_get cl (length (calls s)) VirtualMachines (resourceGroupName (providerData (worker s)))
             (r_name (vm (providerData (worker s)))) = Inr res \<and> p_vmId p = cr_vmId res"
    and "timeStamp p = Some ts"
    and "case expiresOn ts of None \<Rightarrow> False | Some t \<Rightarrow> t > now ev"
  shows "fst (registerWorker ev cr cl document s) = Inl (ApiError ''Signature validation error'')
       \<and> worker (snd (registerWorker ev cr cl document s))
           = (if truthy (vmId (vm (providerData (worker s)))) then worker s
              else pd_update (\<lambda>pd. pd\<lparr>vm := (vm pd)\<lparr>vmId := cr_vmId res\<rparr>\<rparr>) (worker s))
       \<and> state (worker (snd (registerWorker ev cr cl document s))) = state (worker s)
       \<and> lastModified (worker (snd (registerWorker ev cr cl document s))) = lastModified (worker s)
       \<and> terminateAfter (providerData (worker (snd (registerWorker ev cr cl document s))))
           = terminateAfter (providerData (worker s))"
proof (cases "truthy (vmId (vm (providerData (worker s))))")
  case True
  then show ?thesis
    using assms
    by (simp add: registerWorker_def workerVmId_stored registration_error_def)
next
  case False
  with assms(4) have g: "c_get cl (length (calls s)) VirtualMachines
      (resourceGroupName (providerData (worker s))) (r_name (vm (providerData (worker s)))) = Inr res"
    and v: "p_vmId p = cr_vmId res"
    by simp_all
  show ?thesis
    using False assms(1,2,5,6) v
    by (simp add: registerWorker_def workerVmId_fetched [OF False g] registration_error_def)
qed

theorem C4_duplicate_registration_refused_witness:
  "state (worker (fresh_state registered_worker)) \<noteq> REQUESTED
   \<and> truthy (vmId (vm (providerData (worker (fresh_state registered_worker)))))
   \<and> fst (registerWorker ex_env ex_crypto cloud_absent ''signed'' (fresh_state registered_worker))
       = Inl (ApiError ''Signature validation error'')
   \<and> worker (snd (registerWorker ex_env ex_crypto cloud_absent ''signed'' (fresh_state registered_worker)))
       = registered_worker"
proof -
  let ?p = "\<lparr>p_vmId = Some ''5d06deb3'', timeStamp = Some \<lparr>expiresOn = Some 5000\<rparr>\<rparr>"
  have d: "decode_document ex_crypto ''signed'' = Inr (Object ?p)"
    by (simp add: ex_decode ex_payload_def)
  have st: "state (worker (fresh_state registered_worker)) \<noteq> REQUESTED"
    by code_simp
  have t: "truthy (vmId (vm (providerData (worker (fresh_state registered_worker)))))"
    by code_simp
  have v: "truthy (vmId (vm (providerData (worker (fresh_state registered_worker))))) \<longrightarrow>
      p_vmId ?p = vmId (vm (providerData (worker (fresh_state registered_worker))))"
    by code_simp
  have n: "\<not> truthy (vmId (vm (providerData (worker (fresh_state registered_worker))))) \<longrightarrow>
      c_get cloud_absent (length (calls (fresh_state registered_worker))) VirtualMachines
        (resourceGroupName (providerData (worker (fresh_state registered_worker))))
        (r_name (vm (providerData (worker (fresh_state registered_worker))))) = Inr (ex_vm ''Succeeded'')
      \<and> p_vmId ?p = cr_vmId (ex_vm ''Succeeded'')"
    using t by simp
  have ts: "timeStamp ?p = Some \<lparr>expiresOn = Some 5000\<rparr>"
    by simp
  have e: "case expiresOn \<lparr>expiresOn = Some 5000\<rparr> of None \<Rightarrow> False | Some t \<Rightarrow> t > now ex_env"
    by code_simp
  have w: "worker (fresh_state registered_worker) = registered_worker"
    by (simp add: fresh_state_def)
  from C4_duplicate_registration_refused [OF d st v n ts e] t w st
  show ?thesis
    by simp
qed

text \<open>
  Claim C10. When \<^verbatim>\<open>registerWorker\<close> is called on a worker without a stored
  \<^verbatim>\<open>vm.vmId\<close> and the GET of the VM succeeds, the fetched vmId is written to the row
  before the vmId, time stamp and state checks: the first row written is the row with
  that vmId, the row has it when \<^verbatim>\<open>registerWorker\<close> ends, whatever the outcome, and
  every attempt that throws leaves the row changed in exactly that field. The attempt
  throws the opaque error when the payload has another vmId, when its time stamp has no
  date after now, and when the worker is not \<open>requested\<close>.
\<close>

theorem C10_failed_registration_keeps_fetched_vmId:
  assumes "decode_document cr document = Inr pl"
    and "\<not> truthy (vmId (vm (providerData (worker s))))"
    and "c_get cl (length (calls s)) VirtualMachines (resourceGroupName (providerData (worker s)))
           (r_name (vm (providerData (worker s)))) = Inr res"
  shows "(\<exists>rest. new_writes s (snd (registerWorker ev cr cl document s))
            = pd_update (\<lambda>pd. pd\<lparr>vm := (vm pd)\<lparr>vmId := cr_vmId res\<rparr>\<rparr>) (worker s) # rest)
       \<and> vmId (vm (providerData (worker (snd (registerWorker ev cr cl document s))))) = cr_vmId res
       \<and> (\<forall>e. fst (registerWorker ev cr cl document s) = Inl e \<longrightarrow>
             worker (snd (registerWorker ev cr cl document s))
               = pd_update (\<lambda>pd. pd\<lparr>vm := (vm pd)\<lparr>vmId := cr_vmId res\<rparr>\<rparr>) (worker s))
       \<and> (\<forall>p. pl = Object p
              \<and> (p_vmId p \<noteq> cr_vmId res
                 \<or> (\<exists>ts. timeStamp p = Some ts
                       \<and> (\<not> (case expiresOn ts of None \<Rightarrow> False | Some t \<Rightarrow> t > now ev)
                          \<or> state (worker s) \<noteq> REQUESTED)))
             \<longrightarrow> fst (registerWorker ev cr cl document s)
                   = Inl (ApiError ''Signature validation error''))"
proof (cases pl)
  case Null
  then show ?thesis
    using assms(1)
    by (simp add: registerWorker_def workerVmId_fetched [OF assms(2,3)] new_writes_def)
next
  case (Object p)
  show ?thesis
  proof (cases "timeStamp p")
    case None
    then show ?thesis
      using assms(1) Object
      by (simp add: registerWorker_def workerVmId_fetched [OF assms(2,3)] new_writes_def
            registration_error_def)
  next
    case (Some ts)
    then show ?thesis
      using assms(1) Object
      by (simp add: registerWorker_def workerVmId_fetched [OF assms(2,3)] new_writes_def
            registration_error_def Let_def)
  qed
qed

theorem C10_failed_registration_keeps_fetched_vmId_witness:
  "vmId (vm (providerData (worker (fresh_state ex_worker)))) = None
   \<and> fst (registerWorker (ex_env\<lparr>now := 6000\<rparr>) ex_crypto cloud_no_view ''signed''
            (fresh_state ex_worker))
       = Inl (ApiError ''Signature validation error'')
   \<and> vmId (vm (providerData (worker (snd (registerWorker (ex_env\<lparr>now := 6000\<rparr>) ex_crypto
            cloud_no_view ''signed'' (fresh_state ex_worker))))))
       = Some ''5d06deb3''"
proof -
  let ?p = "\<lparr>p_vmId = Some ''5d06deb3'', timeStamp = Some \<lparr>expiresOn = Some 5000\<rparr>\<rparr>"
  have n: "vmId (vm (providerData (worker (fresh_state ex_worker)))) = None"
    by code_simp
  then have u: "\<not> truthy (vmId (vm (providerData (worker (fresh_state ex_worker)))))"
    by simp
  have g: "c_get cloud_no_view (length (calls (fresh_state ex_worker))) VirtualMachines
             (resourceGroupName (providerData (worker (fresh_state ex_worker))))
             (r_name (vm (providerData (worker (fresh_state ex_worker))))) = Inr (ex_vm ''Succeeded'')"
    by (simp add: cloud_no_view_def ex_cloud_def ex_resource_def)
  have late: "ex_payload = Object ?p
     \<and> (p_vmId ?p \<noteq> cr_vmId (ex_vm ''Succeeded'')
        \<or> (\<exists>ts. timeStamp ?p = Some ts
              \<and> (\<not> (case expiresOn ts of None \<Rightarrow> False | Some t \<Rightarrow> t > now (ex_env\<lparr>now := 6000\<rparr>))
                 \<or> state (worker (fresh_state ex_worker)) \<noteq> REQUESTED)))"
    by (simp add: ex_payload_def)
  note r = C10_failed_registration_keeps_fetched_vmId [OF ex_decode u g, of "ex_env\<lparr>now := 6000\<rparr>"]
  from r late have a: "fst (registerWorker (ex_env\<lparr>now := 6000\<rparr>) ex_crypto cloud_no_view ''signed''
            (fresh_state ex_worker)) = Inl (ApiError ''Signature validation error'')"
    by blast
  from r have b: "vmId (vm (providerData (worker (snd (registerWorker (ex_env\<lparr>now := 6000\<rparr>)
            ex_crypto cloud_no_view ''signed'' (fresh_state ex_worker)))))) = cr_vmId (ex_vm ''Succeeded'')"
    by blast
  have c: "cr_vmId (ex_vm ''Succeeded'') = Some ''5d06deb3''"
    by (simp add: ex_vm_def)
  show ?thesis
    using n a b c by simp
qed

subsection \<open>The gateway\<close>

text \<open>
  Claim C9. For every error the gateway's handler classifies and every try count:
  a status code of exactly 429 gives a decision at level notice (a returned decision,
  so the call is retried) with the backoff \<open>base * 50\<close>; a status code of 500 or more
  gives a decision at level warning with the backoff \<open>base * 2 ^ tries\<close>; every other
  error, any other 4xx and an error without a status code among them, is thrown again
  unchanged. The backoff is that integer where the arithmetic of doubles is exact: the
  product is at most \<open>2 ^ 53\<close> in absolute value and the try count at most 1023.
\<close>

theorem C9_errorHandler_classifies:
  "(statusCode e = Some 429 \<longrightarrow>
      (\<exists>d. errorHandler base e t = Inr d \<and> level d = Notice
           \<and> (\<bar>base * 50\<bar> \<le> 2 ^ 53 \<longrightarrow> backoff d = Exact (base * 50))))
   \<and> (\<forall>c. statusCode e = Some c \<and> c \<ge> 500 \<longrightarrow>
      (\<exists>d. errorHandler base e t = Inr d \<and> level d = Warning
           \<and> (t \<le> 1023 \<and> \<bar>base * 2 ^ t\<bar> \<le> 2 ^ 53 \<longrightarrow> backoff d = Exact (base * 2 ^ t))))
   \<and> ((\<forall>c. statusCode e = Some c \<longrightarrow> c \<noteq> 429 \<and> c < 500) \<longrightarrow>
      errorHandler base e t = Inl e)"
  by (cases e) (auto simp: errorHandler_def pow2_def)

theorem C9_errorHandler_classifies_witness:
  "(\<exists>d. errorHandler 1000 (CloudError 429 ''slow down'') 3 = Inr d
        \<and> backoff d = Exact 50000 \<and> level d = Notice)
   \<and> (\<exists>d. errorHandler 1000 (CloudError 503 ''unavailable'') 3 = Inr d
        \<and> backoff d = Exact 8000 \<and> level d = Warning)
   \<and> errorHandler 1000 (CloudError 404 ''not found'') 3 = Inl (CloudError 404 ''not found'')
   \<and> errorHandler 1000 (Error ''socket hang up'') 3 = Inl (Error ''socket hang up'')"
  using C9_errorHandler_classifies [of "CloudError 429 ''slow down''" 1000 3]
        C9_errorHandler_classifies [of "CloudError 503 ''unavailable''" 1000 3]
        C9_errorHandler_classifies [of "CloudError 404 ''not found''" 1000 3]
        C9_errorHandler_classifies [of "Error ''socket hang up''" 1000 3]
  by simp blast

end
